theory Spec2Isabelle
  imports Complex_Main
begin

section \<open>Text, values and errors\<close>

text \<open>
  A Python \<open>str\<close> is a sequence of Unicode code points, and \<open>len\<close> counts code points;
  a code point is a natural number here. \<open>lit\<close> turns an ASCII literal of the source
  into such a sequence.
\<close>

type_synonym str = "nat list"

definition lit :: "string \<Rightarrow> str" where
  "lit cs = map of_char cs"

text \<open>
  \<open>str.strip()\<close> with no argument removes the leading and trailing characters for which
  \<open>str.isspace\<close> holds; these are the code points CPython lists as whitespace.
\<close>

definition isspace :: "nat \<Rightarrow> bool" where
  "isspace c \<longleftrightarrow>
     (0x09 \<le> c \<and> c \<le> 0x0D) \<or> (0x1C \<le> c \<and> c \<le> 0x20) \<or> c = 0x85 \<or> c = 0xA0 \<or>
     c = 0x1680 \<or> (0x2000 \<le> c \<and> c \<le> 0x200A) \<or> c = 0x2028 \<or> c = 0x2029 \<or>
     c = 0x202F \<or> c = 0x205F \<or> c = 0x3000"

definition strip :: "str \<Rightarrow> str" where
  "strip s = rev (dropWhile isspace (rev (dropWhile isspace s)))"

text \<open>\<open>line.startswith(p)\<close>.\<close>

definition startswith :: "str \<Rightarrow> str \<Rightarrow> bool" where
  "startswith line p \<longleftrightarrow> take (length p) line = p"

text \<open>\<open>p in s\<close> on two strings: \<open>p\<close> occurs in \<open>s\<close> as a contiguous run.\<close>

fun str_contains :: "str \<Rightarrow> str \<Rightarrow> bool" where
  "str_contains [] p = (p = [])"
| "str_contains (c # cs) p = (take (length p) (c # cs) = p \<or> str_contains cs p)"

text \<open>
  The values \<open>json.loads\<close> and \<open>request.json()\<close> return. A \<open>dict\<close> is an association
  list with distinct keys, read with \<open>map_of\<close>. No path of the program reads a number,
  so a \<open>float\<close> carries no payload.
\<close>

datatype pyval =
    PNone
  | PBool bool
  | PInt int
  | PFloat
  | PStr str
  | PList "pyval list"
  | PDict "(str \<times> pyval) list"

datatype py_error =
    KeyError
  | IndexError
  | TypeError
  | AttributeError
  | JSONDecodeError

text \<open>\<open>obj[key]\<close> for a string key.\<close>

fun getitem :: "pyval \<Rightarrow> str \<Rightarrow> py_error + pyval" where
  "getitem (PDict kvs) key = (case map_of kvs key of None \<Rightarrow> Inl KeyError | Some v \<Rightarrow> Inr v)"
| "getitem _ key = Inl TypeError"

text \<open>
  \<open>obj[0]\<close>. A list or a string gives its first element or raises IndexError; the keys
  of a parsed JSON object are strings, so a dict raises KeyError.
\<close>

fun getitem0 :: "pyval \<Rightarrow> py_error + pyval" where
  "getitem0 (PList []) = Inl IndexError"
| "getitem0 (PList (x # xs)) = Inr x"
| "getitem0 (PStr []) = Inl IndexError"
| "getitem0 (PStr (c # cs)) = Inr (PStr [c])"
| "getitem0 (PDict kvs) = Inl KeyError"
| "getitem0 _ = Inl TypeError"

text \<open>\<open>key in obj\<close> for a string key.\<close>

fun contains :: "pyval \<Rightarrow> str \<Rightarrow> py_error + bool" where
  "contains (PDict kvs) key = Inr (map_of kvs key \<noteq> None)"
| "contains (PList xs) key = Inr (PStr key \<in> set xs)"
| "contains (PStr s) key = Inr (str_contains s key)"
| "contains _ key = Inl TypeError"

section \<open>Configuration and state\<close>

definition REQUESTS_PER_MINUTE :: nat where
  "REQUESTS_PER_MINUTE = 30"

definition MAX_MESSAGE_LENGTH :: nat where
  "MAX_MESSAGE_LENGTH = 3000"

definition MAX_MEMORY_MESSAGES :: nat where
  "MAX_MEMORY_MESSAGES = 20"

definition GROQ_URL :: str where
  "GROQ_URL = lit ''https://api.groq.com/openai/v1/chat/completions''"

text \<open>\<open>MODELS.get(model, MODELS["fast"])\<close>; \<open>model\<close> is an optional string.\<close>

definition MODELS :: "str \<rightharpoonup> str" where
  "MODELS = [lit ''fast'' \<mapsto> lit ''llama-3.1-8b-instant'',
             lit ''smart'' \<mapsto> lit ''llama-3.1-70b-versatile'',
             lit ''ultra'' \<mapsto> lit ''mixtral-8x22b-instruct'']"

definition MODELS_get :: "str option \<Rightarrow> str" where
  "MODELS_get model =
     (case model of
        None \<Rightarrow> lit ''llama-3.1-8b-instant''
      | Some m \<Rightarrow> (case MODELS m of None \<Rightarrow> lit ''llama-3.1-8b-instant'' | Some name \<Rightarrow> name))"

definition BASE_SYSTEM_PROMPT :: str where
  "BASE_SYSTEM_PROMPT = lit
     (''\<newline>You are NOVA, a calm, intelligent, friendly, and confident assistant.'' @
      ''\<newline>You feel human and speak naturally.'' @
      ''\<newline>Rules:'' @
      ''\<newline>- Never mention you are an AI, model, Groq, or any APIs'' @
      ''\<newline>- Avoid illegal, harmful, or explicit content'' @
      ''\<newline>- Adapt response length to the conversation'' @
      ''\<newline>- Be warm, helpful, and a bit playful when it fits'' @
      ''\<newline>'')"

text \<open>A message of a conversation, \<open>{"role": ..., "content": ...}\<close>.\<close>

record turn =
  role :: str
  content :: str

text \<open>\<open>STATS = {"requests": 0, "blocked": 0}\<close>; Python integers are unbounded.\<close>

record stats =
  requests :: int
  blocked :: int

text \<open>
  The three module-level dictionaries. \<open>time.time()\<close> is a float; timestamps are real
  numbers here, so the rounding of float subtraction is not modelled.
\<close>

record state =
  USER_MEMORY :: "str \<rightharpoonup> turn list"
  USER_REQUESTS :: "str \<rightharpoonup> real list"
  STATS :: stats

definition init :: state where
  "init = \<lparr>USER_MEMORY = Map.empty, USER_REQUESTS = Map.empty,
           STATS = \<lparr>requests = 0, blocked = 0\<rparr>\<rparr>"

text \<open>\<open>d.get(key, [])\<close> and the list \<open>d.setdefault(key, [])\<close> leaves under the key.\<close>

definition get_list :: "('k \<rightharpoonup> 'a list) \<Rightarrow> 'k \<Rightarrow> 'a list" where
  "get_list d key = (case d key of None \<Rightarrow> [] | Some xs \<Rightarrow> xs)"

text \<open>\<open>xs[-n:]\<close> for a positive \<open>n\<close>: the last \<open>n\<close> elements, all of them when there are fewer.\<close>

definition last_n :: "nat \<Rightarrow> 'a list \<Rightarrow> 'a list" where
  "last_n n xs = drop (length xs - n) xs"

section \<open>Rate limiter\<close>

text \<open>
  The comprehension \<open>[t for t in USER_REQUESTS[uid] if now() - t < 60]\<close> reads the clock
  once for every stored timestamp. \<open>now k\<close> is the reading of the \<open>k\<close>-th call of
  \<open>now()\<close> during one call of \<open>rate_limit\<close>, counted from 0.
\<close>

fun prune :: "(nat \<Rightarrow> real) \<Rightarrow> nat \<Rightarrow> real list \<Rightarrow> real list" where
  "prune now k [] = []"
| "prune now k (t # ts) =
     (if now k - t < 60 then t # prune now (Suc k) ts else prune now (Suc k) ts)"

definition rate_limit :: "(nat \<Rightarrow> real) \<Rightarrow> str \<Rightarrow> state \<Rightarrow> bool \<times> state" where
  "rate_limit now uid s =
     (let stored = get_list (USER_REQUESTS s) uid;
          kept = prune now 0 stored
      in if length kept \<ge> REQUESTS_PER_MINUTE
         then (False, s\<lparr>USER_REQUESTS := (USER_REQUESTS s)(uid \<mapsto> kept),
                        STATS := (STATS s)\<lparr>blocked := blocked (STATS s) + 1\<rparr>\<rparr>)
         else (True, s\<lparr>USER_REQUESTS :=
                         (USER_REQUESTS s)(uid \<mapsto> kept @ [now (length stored)])\<rparr>))"

section \<open>Conversation store\<close>

definition build_messages :: "str \<Rightarrow> str \<Rightarrow> state \<Rightarrow> turn list" where
  "build_messages uid msg s =
     [\<lparr>role = lit ''system'', content = BASE_SYSTEM_PROMPT\<rparr>] @
     get_list (USER_MEMORY s) uid @
     [\<lparr>role = lit ''user'', content = msg\<rparr>]"

definition save_memory :: "str \<Rightarrow> str \<Rightarrow> str \<Rightarrow> state \<Rightarrow> state" where
  "save_memory uid user_msg ai_msg s =
     s\<lparr>USER_MEMORY := (USER_MEMORY s)(uid \<mapsto>
          last_n (MAX_MEMORY_MESSAGES * 2)
            (get_list (USER_MEMORY s) uid @
               [\<lparr>role = lit ''user'', content = user_msg\<rparr>,
                \<lparr>role = lit ''assistant'', content = ai_msg\<rparr>]))\<rparr>"

section \<open>Upstream streamer\<close>

text \<open>
  What the program receives from outside during one request: the credential read at
  start-up, the string \<open>str(uuid.uuid4())\<close> would give, the clock readings of the rate
  limiter, the behaviour of the upstream endpoint, and \<open>json.loads\<close> (\<open>None\<close> where it
  raises).
\<close>

record payload =
  payload_model :: str
  payload_messages :: "turn list"
  payload_temperature :: "real option"
  payload_max_tokens :: "int option"
  payload_stream :: bool

record http_request =
  url :: str
  headers :: "(str \<times> str) list"
  json :: payload
  stream :: bool
  timeout :: nat

text \<open>
  A chunk of \<open>r.iter_lines()\<close> is a byte string, seen through \<open>chunk.decode("utf-8")\<close>:
  the text it decodes to (\<open>Text []\<close> is the empty byte string, the only falsy chunk) or
  the message of the UnicodeDecodeError it raises.
\<close>

datatype chunk = Text str | Undecodable str

text \<open>
  \<open>requests.post\<close> raises (connection error, timeout), or returns a response with a
  status code, whose line iterator delivers chunks and then ends or raises (read
  timeout, broken connection). An exception is kept as the text \<open>str(e)\<close>;
  \<open>http_error_msg\<close> is the text of the HTTPError that \<open>raise_for_status()\<close> raises for
  this response when it raises.
\<close>

datatype post_result =
    PostRaises str
  | Response (status_code: nat) (http_error_msg: str) (chunks: "chunk list")
      (read_error: "str option")

text \<open>
  \<open>r.raise_for_status()\<close> of the requests library raises for the status codes from 400
  to 599 (client and server errors) and for no other code.
\<close>

definition raise_for_status :: "nat \<Rightarrow> str \<Rightarrow> str option" where
  "raise_for_status code msg = (if 400 \<le> code \<and> code < 600 then Some msg else None)"

record env =
  env_API_KEY :: str
  env_uuid4 :: str
  env_now :: "nat \<Rightarrow> real"
  env_post :: "http_request \<Rightarrow> post_result"
  env_loads :: "str \<Rightarrow> pyval option"

text \<open>What a handler returns, the requests it posted upstream, what it logged, and the state it leaves.\<close>

record 'a result =
  returned :: 'a
  posted :: "http_request list"
  logged :: "str list"
  state_after :: state

definition and_then :: "'e + 'a \<Rightarrow> ('a \<Rightarrow> 'e + 'b) \<Rightarrow> 'e + 'b" where
  "and_then r f = (case r of Inl e \<Rightarrow> Inl e | Inr v \<Rightarrow> f v)"

text \<open>
  The body of the inner \<open>try\<close> for one payload: \<open>Inl e\<close> when a statement raises (the bare
  \<open>except\<close> then continues with the next chunk), \<open>Inr None\<close> when the delta has no
  content, \<open>Inr (Some (content, full_response))\<close> when a fragment is yielded.
  \<open>full_response += content\<close> raises TypeError unless \<open>content\<close> is a \<open>str\<close>.
\<close>

definition parse_frame :: "(str \<Rightarrow> pyval option) \<Rightarrow> str \<Rightarrow> str \<Rightarrow> py_error + (str \<times> str) option" where
  "parse_frame loads data full_response =
     and_then (case loads data of None \<Rightarrow> Inl JSONDecodeError | Some v \<Rightarrow> Inr v) (\<lambda>json_data.
     and_then (getitem json_data (lit ''choices'')) (\<lambda>choices.
     and_then (getitem0 choices) (\<lambda>choice.
     and_then (getitem choice (lit ''delta'')) (\<lambda>delta.
     and_then (contains delta (lit ''content'')) (\<lambda>has_content.
       if has_content
       then and_then (getitem delta (lit ''content'')) (\<lambda>content.
              case content of
                PStr fragment \<Rightarrow> Inr (Some (fragment, full_response @ fragment))
              | _ \<Rightarrow> Inl TypeError)
       else Inr None)))))"

text \<open>
  The loop over \<open>r.iter_lines()\<close>: the fragments yielded, \<open>full_response\<close> when the loop
  is left, and the exception that left it, if any.
\<close>

fun iter_lines :: "(str \<Rightarrow> pyval option) \<Rightarrow> chunk list \<Rightarrow> str option \<Rightarrow> str \<Rightarrow>
    str list \<times> str \<times> str option" where
  "iter_lines loads [] end_error full_response = ([], full_response, end_error)"
| "iter_lines loads (Undecodable e # rest) end_error full_response =
     ([], full_response, Some e)"
| "iter_lines loads (Text line # rest) end_error full_response =
     (if line = [] then iter_lines loads rest end_error full_response
      else if startswith line (lit ''data: '') then
        (let data = strip (drop 6 line)
         in if data = lit ''[DONE]'' then ([], full_response, None)
            else (case parse_frame loads data full_response of
                    Inl e \<Rightarrow> iter_lines loads rest end_error full_response
                  | Inr None \<Rightarrow> iter_lines loads rest end_error full_response
                  | Inr (Some (fragment, full)) \<Rightarrow>
                      (case iter_lines loads rest end_error full of
                         (fragments, final, err) \<Rightarrow> (fragment # fragments, final, err))))
      else iter_lines loads rest end_error full_response)"

definition error_fragment :: "str \<Rightarrow> str" where
  "error_fragment e = lit ''\<newline>\<newline>Error: '' @ e"

text \<open>The arguments of \<open>requests.post\<close>: the headers and the payload built from the call.\<close>

definition upstream_request ::
    "env \<Rightarrow> turn list \<Rightarrow> str option \<Rightarrow> real option \<Rightarrow> int option \<Rightarrow> http_request" where
  "upstream_request e messages model temperature max_tokens =
     \<lparr>url = GROQ_URL,
      headers = [(lit ''Authorization'', lit ''Bearer '' @ env_API_KEY e),
                 (lit ''Content-Type'', lit ''application/json'')],
      json = \<lparr>payload_model = MODELS_get model, payload_messages = messages,
              payload_temperature = temperature, payload_max_tokens = max_tokens,
              payload_stream = True\<rparr>,
      stream = True, timeout = 60\<rparr>"

text \<open>
  The \<open>with requests.post(...) as r\<close> block on what the upstream does: the fragments
  yielded, \<open>full_response\<close>, and the exception that left the block, if any.
\<close>

definition read_stream :: "(str \<Rightarrow> pyval option) \<Rightarrow> post_result \<Rightarrow> str list \<times> str \<times> str option" where
  "read_stream loads upstream =
     (case upstream of
        PostRaises err \<Rightarrow> ([], [], Some err)
      | Response code msg lines end_error \<Rightarrow>
          (case raise_for_status code msg of
             Some err \<Rightarrow> ([], [], Some err)
           | None \<Rightarrow> iter_lines loads lines end_error []))"

text \<open>
  The generator run to its end. An exception anywhere in the \<open>try\<close> block, also the
  IndexError of \<open>messages[-1]\<close> on an empty list, leads to the \<open>except\<close> branch, which
  yields the error fragment and logs; \<open>save_memory\<close> is the last statement of the
  \<open>try\<close> block.
\<close>

definition stream_response ::
    "env \<Rightarrow> str \<Rightarrow> turn list \<Rightarrow> str option \<Rightarrow> real option \<Rightarrow> int option \<Rightarrow> state \<Rightarrow>
     (str list) result" where
  "stream_response e uid messages model temperature max_tokens s =
     (let request = upstream_request e messages model temperature max_tokens;
          failed = (\<lambda>fragments err.
            \<lparr>returned = fragments @ [error_fragment err], posted = [request],
             logged = [err], state_after = s\<rparr>)
      in case read_stream (env_loads e) (env_post e request) of
           (fragments, full_response, Some err) \<Rightarrow> failed fragments err
         | (fragments, full_response, None) \<Rightarrow>
             (if messages = [] then failed fragments (lit ''list index out of range'')
              else \<lparr>returned = fragments, posted = [request], logged = [],
                    state_after = save_memory uid (content (last messages)) full_response s\<rparr>))"

section \<open>Chat orchestrator and controls\<close>

record chat_request =
  req_message :: str
  req_uid :: "str option"
  req_model :: "str option"
  req_temperature :: "real option"
  req_max_tokens :: "int option"

text \<open>
  A handler returns a JSON object \<open>{"status": ..., "response": ...}\<close> or a streaming
  response; the latter is represented by the fragments its generator yields when it is
  run to its end.
\<close>

datatype reply =
    is_JSONReply: JSONReply (status: str) (response: str)
  | is_StreamingResponse: StreamingResponse (body: "str list")

text \<open>\<open>uid or str(uuid.uuid4())\<close>: \<open>None\<close> and the empty string are falsy.\<close>

definition get_user_id :: "env \<Rightarrow> str option \<Rightarrow> str" where
  "get_user_id e uid = (case uid of None \<Rightarrow> env_uuid4 e | Some u \<Rightarrow> if u = [] then env_uuid4 e else u)"

definition chat :: "env \<Rightarrow> chat_request \<Rightarrow> state \<Rightarrow> reply result" where
  "chat e request s =
     (let uid = get_user_id e (req_uid request);
          msg = strip (req_message request);
          s1 = s\<lparr>STATS := (STATS s)\<lparr>requests := requests (STATS s) + 1\<rparr>\<rparr>
      in if msg = [] then
           \<lparr>returned = JSONReply (lit ''error'') (lit ''Say something '' @ [0x1F642]),
            posted = [], logged = [], state_after = s1\<rparr>
         else if length msg > MAX_MESSAGE_LENGTH then
           \<lparr>returned = JSONReply (lit ''error'') (lit ''Message too long.''),
            posted = [], logged = [], state_after = s1\<rparr>
         else (case rate_limit (env_now e) uid s1 of
                 (False, s2) \<Rightarrow>
                   \<lparr>returned = JSONReply (lit ''limited'') (lit ''Chill for a sec '' @ [0x23F3]),
                    posted = [], logged = [], state_after = s2\<rparr>
               | (True, s2) \<Rightarrow>
                   (let messages = build_messages uid msg s2;
                        r = stream_response e uid messages (req_model request)
                              (req_temperature request) (req_max_tokens request) s2
                    in \<lparr>returned = StreamingResponse (returned r), posted = posted r,
                        logged = logged r, state_after = state_after r\<rparr>)))"

text \<open>
  \<open>data.get("uid", "guest")\<close> exists on a dict only. \<open>USER_MEMORY.pop(uid, None)\<close> raises
  on an unhashable key; a hashable key that is not a string equals no key of
  \<open>USER_MEMORY\<close>. The argument is what \<open>await request.json()\<close> gives.
\<close>

definition dict_get :: "pyval \<Rightarrow> str \<Rightarrow> pyval \<Rightarrow> py_error + pyval" where
  "dict_get data key dflt =
     (case data of
        PDict kvs \<Rightarrow> Inr (case map_of kvs key of None \<Rightarrow> dflt | Some v \<Rightarrow> v)
      | _ \<Rightarrow> Inl AttributeError)"

definition memory_pop :: "pyval \<Rightarrow> state \<Rightarrow> py_error + state" where
  "memory_pop uid s =
     (case uid of
        PStr u \<Rightarrow> Inr (s\<lparr>USER_MEMORY := (USER_MEMORY s)(u := None)\<rparr>)
      | PList xs \<Rightarrow> Inl TypeError
      | PDict kvs \<Rightarrow> Inl TypeError
      | _ \<Rightarrow> Inr s)"

definition reset :: "py_error + pyval \<Rightarrow> state \<Rightarrow> py_error + reply \<times> state" where
  "reset request_json s =
     and_then request_json (\<lambda>data.
     and_then (dict_get data (lit ''uid'') (PStr (lit ''guest''))) (\<lambda>uid.
     and_then (memory_pop uid s) (\<lambda>s'.
       Inr (JSONReply (lit ''success'') (lit ''Chat cleared.''), s'))))"

text \<open>A sequence of requests served one after the other; a handler that raises leaves the state as it is.\<close>

datatype request = Chat env chat_request | Reset "py_error + pyval"



section \<open>Derived notions used in the statements\<close>

text \<open>The history of an identity, as \<open>build_messages\<close> reads it: \<open>USER_MEMORY.get(uid, [])\<close>.\<close>

definition history :: "state \<Rightarrow> str \<Rightarrow> turn list" where
  "history s uid = get_list (USER_MEMORY s) uid"

text \<open>The request window of an identity: the list \<open>USER_REQUESTS.setdefault(uid, [])\<close> gives.\<close>

definition window :: "state \<Rightarrow> str \<Rightarrow> real list" where
  "window s uid = get_list (USER_REQUESTS s) uid"

text \<open>The two turns one call of \<open>save_memory\<close> appends.\<close>

definition exchange :: "str \<times> str \<Rightarrow> turn list" where
  "exchange p = [\<lparr>role = lit ''user'', content = fst p\<rparr>,
                 \<lparr>role = lit ''assistant'', content = snd p\<rparr>]"


text \<open>Successive calls of \<open>rate_limit\<close> for one identity, each with its own clock readings.\<close>

fun admits :: "(nat \<Rightarrow> real) list \<Rightarrow> str \<Rightarrow> state \<Rightarrow> bool list \<times> state" where
  "admits [] uid s = ([], s)"
| "admits (now # nows) uid s =
     (case rate_limit now uid s of
        (ok, s') \<Rightarrow> (case admits nows uid s' of (oks, s'') \<Rightarrow> (ok # oks, s'')))"

section \<open>Frames and sample inputs\<close>

text \<open>
  The value \<open>json.loads\<close> gives for a frame \<open>{"choices":[{"delta":{"content": c}}]}\<close>.
\<close>

definition delta_json :: "str \<Rightarrow> pyval" where
  "delta_json c =
     PDict [(lit ''choices'', PList [PDict [(lit ''delta'', PDict [(lit ''content'', PStr c)])]])]"

text \<open>
  The text delta of a decoded frame, at the fixed path \<open>["choices"][0]["delta"]["content"]\<close>:
  an object whose \<open>choices\<close> is a list that starts with an object whose \<open>delta\<close> is an
  object whose \<open>content\<close> is a string.
\<close>

fun delta_content :: "pyval \<Rightarrow> str option" where
  "delta_content (PDict kvs) =
     (case map_of kvs (lit ''choices'') of
        Some (PList (PDict choice # others)) \<Rightarrow>
          (case map_of choice (lit ''delta'') of
             Some (PDict delta) \<Rightarrow>
               (case map_of delta (lit ''content'') of
                  Some (PStr fragment) \<Rightarrow> Some fragment
                | _ \<Rightarrow> None)
           | _ \<Rightarrow> None)
      | _ \<Rightarrow> None)"
| "delta_content _ = None"

text \<open>
  The fragment a chunk stands for: the text delta of a \<open>data: \<close> frame other than
  \<open>[DONE]\<close> whose payload \<open>json.loads\<close> decodes; no fragment for any other chunk.
\<close>

definition fragment_of :: "(str \<Rightarrow> pyval option) \<Rightarrow> chunk \<Rightarrow> str option" where
  "fragment_of loads c =
     (case c of
        Text line \<Rightarrow>
          if line \<noteq> [] \<and> startswith line (lit ''data: '') \<and> strip (drop 6 line) \<noteq> lit ''[DONE]''
          then (case loads (strip (drop 6 line)) of
                  None \<Rightarrow> None
                | Some json_data \<Rightarrow> delta_content json_data)
          else None
      | Undecodable err \<Rightarrow> None)"

text \<open>A chunk that is a \<open>data: \<close> frame, not \<open>[DONE]\<close>, whose payload \<open>json.loads\<close> rejects.\<close>

definition malformed :: "(str \<Rightarrow> pyval option) \<Rightarrow> chunk \<Rightarrow> bool" where
  "malformed loads c =
     (case c of
        Text line \<Rightarrow>
          line \<noteq> [] \<and> startswith line (lit ''data: '') \<and>
          strip (drop 6 line) \<noteq> lit ''[DONE]'' \<and> loads (strip (drop 6 line)) = None
      | Undecodable err \<Rightarrow> False)"

text \<open>A chunk at which the loop is left: the \<open>[DONE]\<close> frame, or bytes that do not decode.\<close>

definition ends_loop :: "chunk \<Rightarrow> bool" where
  "ends_loop c =
     (case c of
        Text line \<Rightarrow>
          line \<noteq> [] \<and> startswith line (lit ''data: '') \<and> strip (drop 6 line) = lit ''[DONE]''
      | Undecodable err \<Rightarrow> True)"

text \<open>
  The chunks read before the loop is left, the exception that leaves it (of the
  iterator, when no chunk ends the loop; of the decoding, when an undecodable chunk does;
  none at \<open>[DONE]\<close>), and the fragments of the chunks read.
\<close>

definition processed :: "chunk list \<Rightarrow> chunk list" where
  "processed lines = takeWhile (\<lambda>c. \<not> ends_loop c) lines"

definition loop_exception :: "chunk list \<Rightarrow> str option \<Rightarrow> str option" where
  "loop_exception lines end_error =
     (case dropWhile (\<lambda>c. \<not> ends_loop c) lines of
        [] \<Rightarrow> end_error
      | Undecodable err # rest \<Rightarrow> Some err
      | Text line # rest \<Rightarrow> None)"

definition fragments_of :: "(str \<Rightarrow> pyval option) \<Rightarrow> chunk list \<Rightarrow> str list" where
  "fragments_of loads lines = List.map_filter (fragment_of loads) (processed lines)"

text \<open>
  A decoder for a fragment of JSON: objects, arrays, strings without escapes, unsigned
  integers and the three literals, with a bound on the recursion that twice the length
  of the text always meets. On this fragment it gives the value \<open>json.loads\<close> gives (for
  a repeated key the last value); elsewhere it gives \<open>None\<close>. It stands for \<open>json.loads\<close>
  in the closed examples only: the theorems hold for every decoder.
\<close>

definition json_ws :: "nat \<Rightarrow> bool" where
  "json_ws c \<longleftrightarrow> c = 0x20 \<or> c = 0x09 \<or> c = 0x0A \<or> c = 0x0D"

fun json_string :: "str \<Rightarrow> str \<Rightarrow> (str \<times> str) option" where
  "json_string [] acc = None"
| "json_string (c # cs) acc =
     (if c = 0x22 then Some (rev acc, cs)
      else if c = 0x5C \<or> c < 0x20 then None
      else json_string cs (c # acc))"

fun json_digits :: "str \<Rightarrow> nat \<Rightarrow> nat \<times> str" where
  "json_digits [] n = (n, [])"
| "json_digits (c # cs) n =
     (if 0x30 \<le> c \<and> c \<le> 0x39 then json_digits cs (10 * n + (c - 0x30)) else (n, c # cs))"

fun dict_put :: "str \<Rightarrow> pyval \<Rightarrow> (str \<times> pyval) list \<Rightarrow> (str \<times> pyval) list" where
  "dict_put k v [] = [(k, v)]"
| "dict_put k v (p # ps) = (if fst p = k then (k, v) # ps else p # dict_put k v ps)"

fun json_value :: "nat \<Rightarrow> str \<Rightarrow> (pyval \<times> str) option"
  and json_elements :: "nat \<Rightarrow> str \<Rightarrow> (pyval list \<times> str) option"
  and json_members :: "nat \<Rightarrow> str \<Rightarrow> ((str \<times> pyval) list \<times> str) option" where
  "json_value 0 s = None"
| "json_value (Suc n) s =
     (case dropWhile json_ws s of
        [] \<Rightarrow> None
      | c # cs \<Rightarrow>
          if c = 0x22 then map_option (\<lambda>(t, r). (PStr t, r)) (json_string cs [])
          else if c = 0x5B then
            (if startswith (dropWhile json_ws cs) [0x5D]
             then Some (PList [], tl (dropWhile json_ws cs))
             else map_option (\<lambda>(vs, r). (PList vs, r)) (json_elements n cs))
          else if c = 0x7B then
            (if startswith (dropWhile json_ws cs) [0x7D]
             then Some (PDict [], tl (dropWhile json_ws cs))
             else map_option (\<lambda>(kvs, r). (PDict (fold (\<lambda>(k, v). dict_put k v) kvs []), r))
                    (json_members n cs))
          else if startswith (c # cs) (lit ''null'') then Some (PNone, drop 4 (c # cs))
          else if startswith (c # cs) (lit ''true'') then Some (PBool True, drop 4 (c # cs))
          else if startswith (c # cs) (lit ''false'') then Some (PBool False, drop 5 (c # cs))
          else if c = 0x30 then Some (PInt 0, cs)
          else if 0x31 \<le> c \<and> c \<le> 0x39 then
            (case json_digits (c # cs) 0 of (m, r) \<Rightarrow> Some (PInt (int m), r))
          else None)"
| "json_elements 0 s = None"
| "json_elements (Suc n) s =
     (case json_value n s of
        None \<Rightarrow> None
      | Some (v, r) \<Rightarrow>
          (case dropWhile json_ws r of
             [] \<Rightarrow> None
           | c # cs \<Rightarrow>
               if c = 0x5D then Some ([v], cs)
               else if c = 0x2C then map_option (\<lambda>(vs, r'). (v # vs, r')) (json_elements n cs)
               else None))"
| "json_members 0 s = None"
| "json_members (Suc n) s =
     (case dropWhile json_ws s of
        [] \<Rightarrow> None
      | q # s1 \<Rightarrow>
          if q \<noteq> 0x22 then None
          else (case json_string s1 [] of
                  None \<Rightarrow> None
                | Some (k, s2) \<Rightarrow>
                    (case dropWhile json_ws s2 of
                       [] \<Rightarrow> None
                     | colon # s3 \<Rightarrow>
                         if colon \<noteq> 0x3A then None
                         else (case json_value n s3 of
                                 None \<Rightarrow> None
                               | Some (v, r) \<Rightarrow>
                                   (case dropWhile json_ws r of
                                      [] \<Rightarrow> None
                                    | c # cs \<Rightarrow>
                                        if c = 0x7D then Some ([(k, v)], cs)
                                        else if c = 0x2C then
                                          map_option (\<lambda>(kvs, r'). ((k, v) # kvs, r'))
                                            (json_members n cs)
                                        else None)))))"

definition json_loads :: "str \<Rightarrow> pyval option" where
  "json_loads s =
     (case json_value (2 * length s + 2) s of
        None \<Rightarrow> None
      | Some (v, r) \<Rightarrow> if dropWhile json_ws r = [] then Some v else None)"

text \<open>An environment whose upstream always answers the same way, and a chat request.\<close>

definition sample_env :: "post_result \<Rightarrow> env" where
  "sample_env upstream =
     \<lparr>env_API_KEY = lit ''secret'', env_uuid4 = lit ''3f0c1c0e-5a54-4b7e-9d55-0d6a3b1c2e4f'',
      env_now = (\<lambda>k. 1000), env_post = (\<lambda>q. upstream), env_loads = json_loads\<rparr>"

definition sample_chat :: "str \<Rightarrow> chat_request" where
  "sample_chat m =
     \<lparr>req_message = m, req_uid = Some (lit ''u1''), req_model = Some (lit ''fast''),
      req_temperature = Some (65 / 100), req_max_tokens = Some 1024\<rparr>"

section \<open>Conversation store: the rolling window\<close>


lemma history_save_memory:
  "history (save_memory uid u a s) uid =
     last_n (MAX_MEMORY_MESSAGES * 2) (history s uid @ exchange (u, a))"
  by (simp add: history_def save_memory_def get_list_def exchange_def)

lemma history_save_memory_other:
  "v \<noteq> uid \<Longrightarrow> history (save_memory uid u a s) v = history s v"
  by (simp add: history_def save_memory_def get_list_def)





section \<open>Rate limiter: the sliding window\<close>


lemma set_prune: "set (prune now k ts) \<subseteq> set ts"
  by (induction ts arbitrary: k) auto


lemma prune_keeps_fresh: "\<forall>t \<in> set ts. \<forall>i. now i - t < 60 \<Longrightarrow> prune now k ts = ts"
  by (induction ts arbitrary: k) auto



lemma fst_rate_limit:
  "fst (rate_limit now uid s) \<longleftrightarrow> length (prune now 0 (window s uid)) < REQUESTS_PER_MINUTE"
  by (auto simp add: rate_limit_def window_def Let_def)


lemma rate_limit_keeps_rest:
  "USER_MEMORY (snd (rate_limit now uid s)) = USER_MEMORY s \<and>
   requests (STATS (snd (rate_limit now uid s))) = requests (STATS s)"
  by (simp add: rate_limit_def Let_def)


lemma USER_REQUESTS_stream_response:
  "USER_REQUESTS (state_after (stream_response e uid messages model temperature max_tokens s)) =
     USER_REQUESTS s"
  by (simp add: stream_response_def Let_def save_memory_def
      split: option.splits prod.splits)














lemma admits_append:
  "admits (nows @ [now]) uid s =
     (fst (admits nows uid s) @ [fst (rate_limit now uid (snd (admits nows uid s)))],
      snd (rate_limit now uid (snd (admits nows uid s))))"
  by (induction nows arbitrary: s) (simp_all split: prod.splits)













section \<open>Input validation\<close>

lemma strip_plain:
  assumes "m \<noteq> []" "\<not> isspace (hd m)" "\<not> isspace (last m)"
  shows "strip m = m"
proof -
  from assms have a: "dropWhile isspace m = m" by (cases m) auto
  from assms have "rev m \<noteq> []" "\<not> isspace (hd (rev m))" by (simp_all add: hd_rev)
  then have b: "dropWhile isspace (rev m) = rev m" by (cases "rev m") auto
  show ?thesis by (simp add: strip_def a b)
qed

lemma chat_rejects_invalid:
  assumes "strip (req_message r) = [] \<or> MAX_MESSAGE_LENGTH < length (strip (req_message r))"
  shows "chat e r s =
     \<lparr>returned = (if strip (req_message r) = []
                   then JSONReply (lit ''error'') (lit ''Say something '' @ [0x1F642])
                   else JSONReply (lit ''error'') (lit ''Message too long.'')),
      posted = [], logged = [],
      state_after = s\<lparr>STATS := (STATS s)\<lparr>requests := requests (STATS s) + 1\<rparr>\<rparr>\<rparr>"
  using assms by (auto simp: chat_def Let_def)

text \<open>
  C4, as amended. A chat request whose trimmed message is empty or longer than
  \<open>MAX_MESSAGE_LENGTH\<close> is answered locally with an error reply, posts nothing upstream,
  and leaves every conversation history, every request window and the \<open>blocked\<close> counter
  as they were; the \<open>requests\<close> counter, which is raised before the message is checked,
  grows by one.
\<close>

theorem invalid_message_counts_request_only:
  assumes "strip (req_message r) = [] \<or> MAX_MESSAGE_LENGTH < length (strip (req_message r))"
  shows "returned (chat e r s) =
           (if strip (req_message r) = []
            then JSONReply (lit ''error'') (lit ''Say something '' @ [0x1F642])
            else JSONReply (lit ''error'') (lit ''Message too long.'')) \<and>
         posted (chat e r s) = [] \<and>
         USER_MEMORY (state_after (chat e r s)) = USER_MEMORY s \<and>
         USER_REQUESTS (state_after (chat e r s)) = USER_REQUESTS s \<and>
         blocked (STATS (state_after (chat e r s))) = blocked (STATS s) \<and>
         requests (STATS (state_after (chat e r s))) = requests (STATS s) + 1"
  by (simp add: chat_rejects_invalid [OF assms])

text \<open>
  C4 as stated fails: a request with a blank message changes the \<open>requests\<close> counter.
\<close>

theorem invalid_message_counterexample:
  "strip (req_message (sample_chat (lit ''   ''))) = [] \<and>
   requests (STATS (state_after (chat (sample_env (PostRaises [])) (sample_chat (lit ''   '')) init)))
     \<noteq> requests (STATS init)"
proof -
  have e: "strip (req_message (sample_chat (lit ''   ''))) = []"
    by (simp add: sample_chat_def strip_def lit_def isspace_def)
  then show ?thesis by (simp add: chat_rejects_invalid init_def)
qed

theorem invalid_message_counts_request_only_witness:
  "strip (req_message (sample_chat (lit ''   ''))) = [] \<and>
   returned (chat (sample_env (PostRaises [])) (sample_chat (lit ''   '')) init) =
     JSONReply (lit ''error'') (lit ''Say something '' @ [0x1F642]) \<and>
   requests (STATS (state_after (chat (sample_env (PostRaises [])) (sample_chat (lit ''   '')) init))) = 1 \<and>
   MAX_MESSAGE_LENGTH < length (strip (req_message (sample_chat (replicate 3001 0x61)))) \<and>
   returned (chat (sample_env (PostRaises [])) (sample_chat (replicate 3001 0x61)) init) =
     JSONReply (lit ''error'') (lit ''Message too long.'') \<and>
   posted (chat (sample_env (PostRaises [])) (sample_chat (replicate 3001 0x61)) init) = [] \<and>
   requests (STATS (state_after (chat (sample_env (PostRaises [])) (sample_chat (replicate 3001 0x61)) init))) = 1"
proof -
  let ?e = "sample_env (PostRaises [])"
  have e: "strip (req_message (sample_chat (lit ''   ''))) = []"
    by (simp add: sample_chat_def strip_def lit_def isspace_def)
  have "strip (replicate 3001 0x61) = replicate 3001 0x61"
    by (rule strip_plain) (simp_all add: isspace_def)
  then have l: "strip (req_message (sample_chat (replicate 3001 0x61))) = replicate 3001 0x61"
    by (simp add: sample_chat_def)
  have h1: "strip (req_message (sample_chat (lit ''   ''))) = [] \<or>
      MAX_MESSAGE_LENGTH < length (strip (req_message (sample_chat (lit ''   ''))))"
    using e by simp
  have h2: "strip (req_message (sample_chat (replicate 3001 0x61))) = [] \<or>
      MAX_MESSAGE_LENGTH < length (strip (req_message (sample_chat (replicate 3001 0x61))))"
    by (simp add: l MAX_MESSAGE_LENGTH_def)
  note a = invalid_message_counts_request_only [OF h1, of ?e init]
  note b = invalid_message_counts_request_only [OF h2, of ?e init]
  have r0: "requests (STATS init) = 0" by (simp add: init_def)
  from a e have a1: "returned (chat ?e (sample_chat (lit ''   '')) init) =
     JSONReply (lit ''error'') (lit ''Say something '' @ [0x1F642])" by simp
  from a r0 have a2: "requests (STATS (state_after (chat ?e (sample_chat (lit ''   '')) init))) = 1"
    by simp
  have ne: "strip (req_message (sample_chat (replicate 3001 0x61))) \<noteq> []" by (simp add: l)
  from b ne have b1: "returned (chat ?e (sample_chat (replicate 3001 0x61)) init) =
     JSONReply (lit ''error'') (lit ''Message too long.'')" by simp
  from b have b2: "posted (chat ?e (sample_chat (replicate 3001 0x61)) init) = []" by blast
  from b r0 have b3: "requests (STATS (state_after (chat ?e (sample_chat (replicate 3001 0x61)) init))) = 1"
    by simp
  have b0: "MAX_MESSAGE_LENGTH < length (strip (req_message (sample_chat (replicate 3001 0x61))))"
    by (simp add: l MAX_MESSAGE_LENGTH_def)
  from e a1 a2 b0 b1 b2 b3 show ?thesis by blast
qed

section \<open>Message length boundary\<close>

lemma chat_valid:
  assumes "strip (req_message r) \<noteq> []" "length (strip (req_message r)) \<le> MAX_MESSAGE_LENGTH"
  shows "chat e r s =
     (let uid = get_user_id e (req_uid r);
          s1 = s\<lparr>STATS := (STATS s)\<lparr>requests := requests (STATS s) + 1\<rparr>\<rparr>;
          s2 = snd (rate_limit (env_now e) uid s1)
      in if fst (rate_limit (env_now e) uid s1)
         then (let sr = stream_response e uid (build_messages uid (strip (req_message r)) s2)
                          (req_model r) (req_temperature r) (req_max_tokens r) s2
               in \<lparr>returned = StreamingResponse (returned sr), posted = posted sr,
                   logged = logged sr, state_after = state_after sr\<rparr>)
         else \<lparr>returned = JSONReply (lit ''limited'') (lit ''Chill for a sec '' @ [0x23F3]),
               posted = [], logged = [], state_after = s2\<rparr>)"
  using assms by (auto simp: chat_def Let_def split: prod.splits)

text \<open>
  C8. A chat request whose trimmed message has exactly \<open>MAX_MESSAGE_LENGTH\<close> characters
  passes validation: the rate limiter is run on it and decides between the streaming
  response and the cooldown reply, the only JSON reply it can get. A trimmed message of
  \<open>MAX_MESSAGE_LENGTH + 1\<close> characters gets the too-long error reply; nothing is posted
  and the rate limiter is not run.
\<close>

theorem message_length_boundary:
  "(length (strip (req_message r)) = MAX_MESSAGE_LENGTH \<longrightarrow>
      (is_StreamingResponse (returned (chat e r s)) \<longleftrightarrow>
         fst (rate_limit (env_now e) (get_user_id e (req_uid r))
               (s\<lparr>STATS := (STATS s)\<lparr>requests := requests (STATS s) + 1\<rparr>\<rparr>))) \<and>
      (is_JSONReply (returned (chat e r s)) \<longrightarrow>
         returned (chat e r s) = JSONReply (lit ''limited'') (lit ''Chill for a sec '' @ [0x23F3])) \<and>
      USER_REQUESTS (state_after (chat e r s)) =
        USER_REQUESTS (snd (rate_limit (env_now e) (get_user_id e (req_uid r))
               (s\<lparr>STATS := (STATS s)\<lparr>requests := requests (STATS s) + 1\<rparr>\<rparr>)))) \<and>
   (length (strip (req_message r)) = MAX_MESSAGE_LENGTH + 1 \<longrightarrow>
      returned (chat e r s) = JSONReply (lit ''error'') (lit ''Message too long.'') \<and>
      posted (chat e r s) = [] \<and>
      USER_REQUESTS (state_after (chat e r s)) = USER_REQUESTS s)"
proof (intro conjI impI)
  assume len: "length (strip (req_message r)) = MAX_MESSAGE_LENGTH"
  then have v: "strip (req_message r) \<noteq> []" "length (strip (req_message r)) \<le> MAX_MESSAGE_LENGTH"
    by (auto simp: MAX_MESSAGE_LENGTH_def)
  note c = chat_valid [OF v, of e s]
  show "is_StreamingResponse (returned (chat e r s)) \<longleftrightarrow>
         fst (rate_limit (env_now e) (get_user_id e (req_uid r))
               (s\<lparr>STATS := (STATS s)\<lparr>requests := requests (STATS s) + 1\<rparr>\<rparr>))"
    by (simp add: c Let_def)
  show "USER_REQUESTS (state_after (chat e r s)) =
        USER_REQUESTS (snd (rate_limit (env_now e) (get_user_id e (req_uid r))
               (s\<lparr>STATS := (STATS s)\<lparr>requests := requests (STATS s) + 1\<rparr>\<rparr>)))"
    by (simp add: c Let_def USER_REQUESTS_stream_response)
  assume "is_JSONReply (returned (chat e r s))"
  then show "returned (chat e r s) = JSONReply (lit ''limited'') (lit ''Chill for a sec '' @ [0x23F3])"
    by (simp add: c Let_def split: if_splits)
next
  assume len: "length (strip (req_message r)) = MAX_MESSAGE_LENGTH + 1"
  then have bad: "strip (req_message r) = [] \<or> MAX_MESSAGE_LENGTH < length (strip (req_message r))"
    and ne: "strip (req_message r) \<noteq> []"
    by auto
  note c = chat_rejects_invalid [OF bad, of e s]
  show "returned (chat e r s) = JSONReply (lit ''error'') (lit ''Message too long.'')"
    by (simp add: c ne)
  show "posted (chat e r s) = []" by (simp add: c)
  show "USER_REQUESTS (state_after (chat e r s)) = USER_REQUESTS s" by (simp add: c)
qed


theorem message_length_boundary_witness:
  "length (strip (req_message (sample_chat (replicate 3000 0x61)))) = MAX_MESSAGE_LENGTH \<and>
   is_StreamingResponse
     (returned (chat (sample_env (PostRaises (lit ''down''))) (sample_chat (replicate 3000 0x61)) init)) \<and>
   is_JSONReply
     (returned (chat (sample_env (PostRaises (lit ''down''))) (sample_chat (replicate 3000 0x61))
        (init\<lparr>USER_REQUESTS := [lit ''u1'' \<mapsto> replicate 30 990]\<rparr>))) \<and>
   returned (chat (sample_env (PostRaises (lit ''down''))) (sample_chat (replicate 3000 0x61))
        (init\<lparr>USER_REQUESTS := [lit ''u1'' \<mapsto> replicate 30 990]\<rparr>)) =
     JSONReply (lit ''limited'') (lit ''Chill for a sec '' @ [0x23F3]) \<and>
   length (strip (req_message (sample_chat (replicate 3001 0x61)))) = MAX_MESSAGE_LENGTH + 1 \<and>
   returned (chat (sample_env (PostRaises (lit ''down''))) (sample_chat (replicate 3001 0x61)) init) =
     JSONReply (lit ''error'') (lit ''Message too long.'')"
proof -
  let ?e = "sample_env (PostRaises (lit ''down''))"
  let ?full = "init\<lparr>USER_REQUESTS := [lit ''u1'' \<mapsto> replicate 30 990]\<rparr>"
  let ?m = "sample_chat (replicate 3000 0x61)"
  let ?m' = "sample_chat (replicate 3001 0x61)"
  have "strip (replicate 3000 0x61) = replicate 3000 0x61"
    by (rule strip_plain) (simp_all add: isspace_def)
  then have l: "length (strip (req_message ?m)) = MAX_MESSAGE_LENGTH"
    by (simp add: sample_chat_def MAX_MESSAGE_LENGTH_def)
  have "strip (replicate 3001 0x61) = replicate 3001 0x61"
    by (rule strip_plain) (simp_all add: isspace_def)
  then have l': "length (strip (req_message ?m')) = MAX_MESSAGE_LENGTH + 1"
    by (simp add: sample_chat_def MAX_MESSAGE_LENGTH_def)
  have u: "get_user_id ?e (req_uid ?m) = lit ''u1''"
    by (simp add: get_user_id_def sample_chat_def lit_def)
  have n: "env_now ?e = (\<lambda>k. 1000)" by (simp add: sample_env_def)
  have p: "prune (\<lambda>k. 1000) 0 (replicate 30 990) = replicate 30 990"
    by (rule prune_keeps_fresh) simp
  have ok: "fst (rate_limit (env_now ?e) (get_user_id ?e (req_uid ?m))
      (init\<lparr>STATS := (STATS init)\<lparr>requests := requests (STATS init) + 1\<rparr>\<rparr>))"
    by (simp add: u n fst_rate_limit window_def get_list_def init_def REQUESTS_PER_MINUTE_def)
  have no: "\<not> fst (rate_limit (env_now ?e) (get_user_id ?e (req_uid ?m))
      (?full\<lparr>STATS := (STATS ?full)\<lparr>requests := requests (STATS ?full) + 1\<rparr>\<rparr>))"
    by (simp add: u n fst_rate_limit window_def get_list_def p REQUESTS_PER_MINUTE_def)
  note a = message_length_boundary [of ?m ?e init, THEN conjunct1, rule_format, OF l]
  note b = message_length_boundary [of ?m ?e ?full, THEN conjunct1, rule_format, OF l]
  note c = message_length_boundary [of ?m' ?e init, THEN conjunct2, rule_format, OF l']
  from a ok have a1: "is_StreamingResponse (returned (chat ?e ?m init))" by blast
  from b no have "\<not> is_StreamingResponse (returned (chat ?e ?m ?full))" by blast
  then have b1: "is_JSONReply (returned (chat ?e ?m ?full))"
    by (cases "returned (chat ?e ?m ?full)") simp_all
  with b have b2: "returned (chat ?e ?m ?full) =
      JSONReply (lit ''limited'') (lit ''Chill for a sec '' @ [0x23F3])" by blast
  from c have c1: "returned (chat ?e ?m' init) = JSONReply (lit ''error'') (lit ''Message too long.'')"
    by blast
  from l a1 b1 b2 l' c1 show ?thesis by blast
qed

section \<open>Reset\<close>

lemma reset_dict:
  "reset (Inr (PDict kvs)) s =
     and_then (memory_pop (case map_of kvs (lit ''uid'') of None \<Rightarrow> PStr (lit ''guest'') | Some v \<Rightarrow> v) s)
       (\<lambda>s'. Inr (JSONReply (lit ''success'') (lit ''Chat cleared.''), s'))"
  by (simp add: reset_def and_then_def dict_get_def)

lemma reset_str:
  "(case map_of kvs (lit ''uid'') of None \<Rightarrow> PStr (lit ''guest'') | Some v \<Rightarrow> v) = PStr u \<Longrightarrow>
   reset (Inr (PDict kvs)) s =
     Inr (JSONReply (lit ''success'') (lit ''Chat cleared.''),
          s\<lparr>USER_MEMORY := (USER_MEMORY s)(u := None)\<rparr>)"
  by (simp add: reset_dict and_then_def memory_pop_def)

text \<open>
  C9. A reset for an identity answers with the success reply and removes the identity's
  history, leaving the histories of the other identities, all request windows and the
  counters as they are. It is idempotent: on an identity without stored history it does
  not raise, answers the same and changes nothing, so a second reset leaves the state
  of the first.
\<close>

theorem reset_removes_history_idempotent:
  assumes "map_of kvs (lit ''uid'') = Some (PStr uid)"
  shows "reset (Inr (PDict kvs)) s =
           Inr (JSONReply (lit ''success'') (lit ''Chat cleared.''),
                s\<lparr>USER_MEMORY := (USER_MEMORY s)(uid := None)\<rparr>) \<and>
         history (s\<lparr>USER_MEMORY := (USER_MEMORY s)(uid := None)\<rparr>) uid = [] \<and>
         (\<forall>v. v \<noteq> uid \<longrightarrow>
            history (s\<lparr>USER_MEMORY := (USER_MEMORY s)(uid := None)\<rparr>) v = history s v) \<and>
         USER_REQUESTS (s\<lparr>USER_MEMORY := (USER_MEMORY s)(uid := None)\<rparr>) = USER_REQUESTS s \<and>
         STATS (s\<lparr>USER_MEMORY := (USER_MEMORY s)(uid := None)\<rparr>) = STATS s \<and>
         (USER_MEMORY s uid = None \<longrightarrow>
            reset (Inr (PDict kvs)) s =
              Inr (JSONReply (lit ''success'') (lit ''Chat cleared.''), s)) \<and>
         reset (Inr (PDict kvs)) (s\<lparr>USER_MEMORY := (USER_MEMORY s)(uid := None)\<rparr>) =
           Inr (JSONReply (lit ''success'') (lit ''Chat cleared.''),
                s\<lparr>USER_MEMORY := (USER_MEMORY s)(uid := None)\<rparr>)"
proof -
  have c: "(case map_of kvs (lit ''uid'') of None \<Rightarrow> PStr (lit ''guest'') | Some v \<Rightarrow> v) = PStr uid"
    using assms by simp
  note r = reset_str [OF c]
  have absent: "USER_MEMORY s uid = None \<longrightarrow> s\<lparr>USER_MEMORY := (USER_MEMORY s)(uid := None)\<rparr> = s"
    by (simp add: fun_upd_idem)
  show ?thesis
    using absent by (simp add: r history_def get_list_def)
qed

theorem reset_removes_history_idempotent_witness:
  "map_of [(lit ''uid'', PStr (lit ''u1''))] (lit ''uid'') = Some (PStr (lit ''u1'')) \<and>
   history (save_memory (lit ''u1'') (lit ''hi'') (lit ''yo'') init) (lit ''u1'') \<noteq> [] \<and>
   reset (Inr (PDict [(lit ''uid'', PStr (lit ''u1''))]))
       (save_memory (lit ''u1'') (lit ''hi'') (lit ''yo'') init) =
     Inr (JSONReply (lit ''success'') (lit ''Chat cleared.''), init) \<and>
   USER_MEMORY init (lit ''u1'') = None \<and>
   reset (Inr (PDict [(lit ''uid'', PStr (lit ''u1''))])) init =
     Inr (JSONReply (lit ''success'') (lit ''Chat cleared.''), init)"
proof -
  let ?kvs = "[(lit ''uid'', PStr (lit ''u1''))]"
  let ?s = "save_memory (lit ''u1'') (lit ''hi'') (lit ''yo'') init"
  have h: "map_of ?kvs (lit ''uid'') = Some (PStr (lit ''u1''))" by simp
  have n: "USER_MEMORY init (lit ''u1'') = None" by (simp add: init_def)
  have ne: "history ?s (lit ''u1'') \<noteq> []"
    by (simp add: history_save_memory last_n_def exchange_def MAX_MEMORY_MESSAGES_def)
  have cleared: "(?s)\<lparr>USER_MEMORY := (USER_MEMORY ?s)(lit ''u1'' := None)\<rparr> = init"
    by (simp add: save_memory_def init_def)
  note a = reset_removes_history_idempotent [OF h, of ?s]
  note b = reset_removes_history_idempotent [OF h, of init]
  from a have a1: "reset (Inr (PDict ?kvs)) ?s =
      Inr (JSONReply (lit ''success'') (lit ''Chat cleared.''), init)"
    by (simp only: cleared)
  from b n have b1: "reset (Inr (PDict ?kvs)) init =
      Inr (JSONReply (lit ''success'') (lit ''Chat cleared.''), init)" by blast
  from h ne a1 n b1 show ?thesis by blast
qed

text \<open>
  C10. A reset whose JSON object has no \<open>uid\<close> key acts on the identity \<open>guest\<close>: it
  removes the history stored under that key, if any, and answers with the success reply.
\<close>

theorem reset_without_uid_clears_guest:
  assumes "map_of kvs (lit ''uid'') = None"
  shows "reset (Inr (PDict kvs)) s =
           Inr (JSONReply (lit ''success'') (lit ''Chat cleared.''),
                s\<lparr>USER_MEMORY := (USER_MEMORY s)(lit ''guest'' := None)\<rparr>) \<and>
         history (s\<lparr>USER_MEMORY := (USER_MEMORY s)(lit ''guest'' := None)\<rparr>) (lit ''guest'') = []"
proof -
  have c: "(case map_of kvs (lit ''uid'') of None \<Rightarrow> PStr (lit ''guest'') | Some v \<Rightarrow> v) =
      PStr (lit ''guest'')"
    using assms by simp
  show ?thesis
    by (simp add: reset_str [OF c] history_def get_list_def)
qed

theorem reset_without_uid_clears_guest_witness:
  "map_of [(lit ''other'', PInt 1)] (lit ''uid'') = None \<and>
   history (save_memory (lit ''guest'') (lit ''hi'') (lit ''yo'') init) (lit ''guest'') \<noteq> [] \<and>
   reset (Inr (PDict [(lit ''other'', PInt 1)]))
       (save_memory (lit ''guest'') (lit ''hi'') (lit ''yo'') init) =
     Inr (JSONReply (lit ''success'') (lit ''Chat cleared.''), init)"
proof -
  let ?kvs = "[(lit ''other'', PInt 1)]"
  let ?s = "save_memory (lit ''guest'') (lit ''hi'') (lit ''yo'') init"
  have h: "map_of ?kvs (lit ''uid'') = None" by (simp add: lit_def)
  have ne: "history ?s (lit ''guest'') \<noteq> []"
    by (simp add: history_save_memory last_n_def exchange_def MAX_MEMORY_MESSAGES_def)
  have cleared: "(?s)\<lparr>USER_MEMORY := (USER_MEMORY ?s)(lit ''guest'' := None)\<rparr> = init"
    by (simp add: save_memory_def init_def)
  note a = reset_without_uid_clears_guest [OF h, of ?s]
  from a have a1: "reset (Inr (PDict ?kvs)) ?s =
      Inr (JSONReply (lit ''success'') (lit ''Chat cleared.''), init)"
    by (simp only: cleared)
  from h ne a1 show ?thesis by blast
qed

section \<open>Upstream streamer: frames\<close>

lemma parse_frame_delta:
  "loads data = Some (delta_json c) \<Longrightarrow> parse_frame loads data full = Inr (Some (c, full @ c))"
  by (simp add: parse_frame_def and_then_def delta_json_def)

lemma parse_frame_undecoded:
  "loads data = None \<Longrightarrow> parse_frame loads data full = Inl JSONDecodeError"
  by (simp add: parse_frame_def and_then_def)

lemma iter_lines_malformed:
  "malformed loads c \<Longrightarrow>
   iter_lines loads (c # rest) end_error full = iter_lines loads rest end_error full"
  by (cases c) (auto simp: malformed_def parse_frame_undecoded)

lemma iter_lines_drop_malformed:
  "iter_lines loads (filter (\<lambda>c. \<not> malformed loads c) lines) end_error full =
   iter_lines loads lines end_error full"
proof (induction lines arbitrary: full)
  case Nil
  show ?case by simp
next
  case (Cons c lines)
  show ?case
  proof (cases "malformed loads c")
    case True
    then show ?thesis by (simp add: Cons.IH iter_lines_malformed)
  next
    case False
    show ?thesis
    proof (cases c)
      case (Undecodable err)
      then show ?thesis by (simp add: malformed_def)
    next
      case (Text line)
      with False show ?thesis
        by (simp add: Cons.IH Let_def split: sum.splits option.splits prod.splits)
    qed
  qed
qed

lemma iter_lines_delta:
  assumes "line \<noteq> []" "startswith line (lit ''data: '')"
    "strip (drop 6 line) \<noteq> lit ''[DONE]''"
    "loads (strip (drop 6 line)) = Some (delta_json c)"
  shows "iter_lines loads (Text line # rest) end_error full =
     (case iter_lines loads rest end_error (full @ c) of
        (fragments, final, err) \<Rightarrow> (c # fragments, final, err))"
  using assms by (simp add: parse_frame_delta)

lemma iter_lines_done:
  assumes "line \<noteq> []" "startswith line (lit ''data: '')" "strip (drop 6 line) = lit ''[DONE]''"
  shows "iter_lines loads (Text line # rest) end_error full = ([], full, None)"
  using assms by simp

lemma frame_A:
  \<open>lit ''data: {"choices":[{"delta":{"content":"A"}}]}'' \<noteq> [] \<and>
   startswith (lit ''data: {"choices":[{"delta":{"content":"A"}}]}'') (lit ''data: '') \<and>
   strip (drop 6 (lit ''data: {"choices":[{"delta":{"content":"A"}}]}'')) =
     lit ''{"choices":[{"delta":{"content":"A"}}]}'' \<and>
   lit ''{"choices":[{"delta":{"content":"A"}}]}'' \<noteq> lit ''[DONE]''\<close>
  by (simp add: lit_def startswith_def strip_def isspace_def)


lemma frame_B:
  \<open>lit ''data: {"choices":[{"delta":{"content":"B"}}]}'' \<noteq> [] \<and>
   startswith (lit ''data: {"choices":[{"delta":{"content":"B"}}]}'') (lit ''data: '') \<and>
   strip (drop 6 (lit ''data: {"choices":[{"delta":{"content":"B"}}]}'')) =
     lit ''{"choices":[{"delta":{"content":"B"}}]}'' \<and>
   lit ''{"choices":[{"delta":{"content":"B"}}]}'' \<noteq> lit ''[DONE]''\<close>
  by (simp add: lit_def startswith_def strip_def isspace_def)

lemma frame_garbage:
  \<open>lit ''data: {garbage'' \<noteq> [] \<and>
   startswith (lit ''data: {garbage'') (lit ''data: '') \<and>
   strip (drop 6 (lit ''data: {garbage'')) = lit ''{garbage'' \<and>
   lit ''{garbage'' \<noteq> lit ''[DONE]''\<close>
  by (simp add: lit_def startswith_def strip_def isspace_def)

lemma frame_DONE:
  \<open>lit ''data: [DONE]'' \<noteq> [] \<and>
   startswith (lit ''data: [DONE]'') (lit ''data: '') \<and>
   strip (drop 6 (lit ''data: [DONE]'')) = lit ''[DONE]''\<close>
  by (simp add: lit_def startswith_def strip_def isspace_def)

lemma iter_lines_A_garbage_B:
  assumes a: \<open>loads (lit ''{"choices":[{"delta":{"content":"A"}}]}'') = Some (delta_json (lit ''A''))\<close>
    and b: \<open>loads (lit ''{"choices":[{"delta":{"content":"B"}}]}'') = Some (delta_json (lit ''B''))\<close>
    and g: \<open>loads (lit ''{garbage'') = None\<close>
  shows \<open>iter_lines loads
     [Text (lit ''data: {"choices":[{"delta":{"content":"A"}}]}''),
      Text (lit ''data: {garbage''),
      Text (lit ''data: {"choices":[{"delta":{"content":"B"}}]}'')] end_error [] =
     ([lit ''A'', lit ''B''], lit ''AB'', end_error)\<close>
proof -
  have m: "malformed loads (Text (lit ''data: {garbage''))"
    using frame_garbage g by (simp add: malformed_def)
  have A: \<open>loads (strip (drop 6 (lit ''data: {"choices":[{"delta":{"content":"A"}}]}''))) =
      Some (delta_json (lit ''A''))\<close>
    using frame_A a by simp
  have B: \<open>loads (strip (drop 6 (lit ''data: {"choices":[{"delta":{"content":"B"}}]}''))) =
      Some (delta_json (lit ''B''))\<close>
    using frame_B b by simp
  have AB: "lit ''A'' @ lit ''B'' = lit ''AB''" by (simp add: lit_def)
  note fA = frame_A [THEN conjunct1] frame_A [THEN conjunct2, THEN conjunct1]
  note fB = frame_B [THEN conjunct1] frame_B [THEN conjunct2, THEN conjunct1]
  have nA: \<open>strip (drop 6 (lit ''data: {"choices":[{"delta":{"content":"A"}}]}'')) \<noteq> lit ''[DONE]''\<close>
    using frame_A by simp
  have nB: \<open>strip (drop 6 (lit ''data: {"choices":[{"delta":{"content":"B"}}]}'')) \<noteq> lit ''[DONE]''\<close>
    using frame_B by simp
  note stepA = iter_lines_delta [where loads = loads, OF fA nA A]
  note stepB = iter_lines_delta [where loads = loads, OF fB nB B]
  show ?thesis
    by (simp only: stepA stepB iter_lines_malformed [OF m] iter_lines.simps(1)
        prod.case append_Nil AB)
qed


lemma json_loads_A:
  \<open>json_loads (lit ''{"choices":[{"delta":{"content":"A"}}]}'') = Some (delta_json (lit ''A''))\<close>
  by code_simp

lemma json_loads_B:
  \<open>json_loads (lit ''{"choices":[{"delta":{"content":"B"}}]}'') = Some (delta_json (lit ''B''))\<close>
  by code_simp

lemma json_loads_garbage: \<open>json_loads (lit ''{garbage'') = None\<close>
  by code_simp

lemma read_stream_drop_malformed:
  "read_stream loads (Response code msg (filter (\<lambda>c. \<not> malformed loads c) lines) end_error) =
   read_stream loads (Response code msg lines end_error)"
  by (simp add: read_stream_def iter_lines_drop_malformed split: option.splits)

lemma getitem_Inr:
  "getitem v key = Inr x \<longleftrightarrow> (\<exists>kvs. v = PDict kvs \<and> map_of kvs key = Some x)"
  by (cases v) (auto split: option.splits)

lemma getitem0_Inr:
  "getitem0 v = Inr x \<longleftrightarrow>
     (\<exists>xs. v = PList (x # xs)) \<or> (\<exists>c cs. v = PStr (c # cs) \<and> x = PStr [c])"
  by (cases v rule: getitem0.cases) auto

lemma parse_frame_yields:
  "loads data = Some json_data \<Longrightarrow>
   parse_frame loads data full =
     (case delta_content json_data of
        Some fragment \<Rightarrow> Inr (Some (fragment, full @ fragment))
      | None \<Rightarrow> parse_frame loads data full) \<and>
   (delta_content json_data = None \<longrightarrow>
      (\<forall>p. parse_frame loads data full \<noteq> Inr (Some p)))"
  by (cases json_data)
    (auto simp: parse_frame_def and_then_def getitem_Inr getitem0_Inr
      split: option.splits pyval.splits list.splits sum.splits if_splits)


lemma iter_lines_ends:
  "ends_loop c \<Longrightarrow>
   iter_lines loads (c # rest) end_error full =
     ([], full, case c of Undecodable err \<Rightarrow> Some err | Text line \<Rightarrow> None)"
  by (cases c) (auto simp: ends_loop_def)

lemma iter_lines_goes_on:
  assumes "\<not> ends_loop c"
  shows "iter_lines loads (c # rest) end_error full =
     (case fragment_of loads c of
        None \<Rightarrow> iter_lines loads rest end_error full
      | Some fragment \<Rightarrow>
          (case iter_lines loads rest end_error (full @ fragment) of
             (fragments, final, err) \<Rightarrow> (fragment # fragments, final, err)))"
proof (cases c)
  case (Undecodable err)
  with assms show ?thesis by (simp add: ends_loop_def)
next
  case (Text line)
  show ?thesis
  proof (cases "line \<noteq> [] \<and> startswith line (lit ''data: '')")
    case False
    then show ?thesis by (auto simp: Text fragment_of_def)
  next
    case True
    with assms Text have nd: "strip (drop 6 line) \<noteq> lit ''[DONE]''"
      by (simp add: ends_loop_def)
    show ?thesis
    proof (cases "loads (strip (drop 6 line))")
      case None
      with True nd show ?thesis
        by (simp add: Text fragment_of_def parse_frame_undecoded)
    next
      case (Some json_data)
      note y = parse_frame_yields [where loads = loads and full = full, OF Some]
      show ?thesis
      proof (cases "delta_content json_data")
        case None
        with y have "\<forall>p. parse_frame loads (strip (drop 6 line)) full \<noteq> Inr (Some p)" by blast
        then show ?thesis
          using True nd Some None
          by (auto simp: Text fragment_of_def split: sum.splits option.splits)
      next
        case (Some fragment)
        with y have "parse_frame loads (strip (drop 6 line)) full = Inr (Some (fragment, full @ fragment))"
          by simp
        then show ?thesis
          using True nd \<open>loads (strip (drop 6 line)) = Some json_data\<close> Some
          by (simp add: Text fragment_of_def)
      qed
    qed
  qed
qed

lemma iter_lines_fragments:
  "iter_lines loads lines end_error full =
     (fragments_of loads lines, full @ concat (fragments_of loads lines),
      loop_exception lines end_error)"
proof (induction lines arbitrary: full)
  case Nil
  show ?case by (simp add: fragments_of_def processed_def loop_exception_def map_filter_simps)
next
  case (Cons c lines)
  show ?case
  proof (cases "ends_loop c")
    case True
    have i: "iter_lines loads (c # lines) end_error full =
        ([], full, case c of Undecodable err \<Rightarrow> Some err | Text line \<Rightarrow> None)"
      using True by (rule iter_lines_ends)
    have p: "fragments_of loads (c # lines) = []"
      using True by (simp add: fragments_of_def processed_def map_filter_simps)
    have l: "loop_exception (c # lines) end_error =
        (case c of Undecodable err \<Rightarrow> Some err | Text line \<Rightarrow> None)"
      using True by (cases c) (simp_all add: loop_exception_def)
    show ?thesis unfolding i p l by simp
  next
    case False
    have p: "processed (c # lines) = c # processed lines"
      and l: "loop_exception (c # lines) end_error = loop_exception lines end_error"
      using False by (simp_all add: processed_def loop_exception_def)
    show ?thesis
      by (cases "fragment_of loads c")
        (simp_all add: iter_lines_goes_on [OF False] Cons.IH fragments_of_def p l
          map_filter_simps)
  qed
qed

lemma malformed_no_fragment:
  "malformed loads c \<Longrightarrow> fragment_of loads c = None \<and> \<not> ends_loop c"
  by (cases c) (auto simp: malformed_def fragment_of_def ends_loop_def)


lemma stream_response_failed:
  assumes "read_stream (env_loads e)
      (env_post e (upstream_request e messages model temperature max_tokens)) =
        (fragments, full, Some err)"
  shows "stream_response e uid messages model temperature max_tokens s =
     \<lparr>returned = fragments @ [error_fragment err],
      posted = [upstream_request e messages model temperature max_tokens],
      logged = [err], state_after = s\<rparr>"
  using assms by (simp add: stream_response_def Let_def)

lemma stream_response_completed:
  assumes "read_stream (env_loads e)
      (env_post e (upstream_request e messages model temperature max_tokens)) =
        (fragments, full, None)"
    and "messages \<noteq> []"
  shows "stream_response e uid messages model temperature max_tokens s =
     \<lparr>returned = fragments,
      posted = [upstream_request e messages model temperature max_tokens],
      logged = [], state_after = save_memory uid (content (last messages)) full s\<rparr>"
  using assms by (simp add: stream_response_def Let_def)

lemma posted_stream_response:
  "posted (stream_response e uid messages model temperature max_tokens s) =
     [upstream_request e messages model temperature max_tokens]"
  by (simp add: stream_response_def Let_def split: prod.splits option.splits)

lemma read_stream_body:
  "\<not> (400 \<le> code \<and> code < 600) \<Longrightarrow>
   read_stream loads (Response code msg lines end_error) =
     (fragments_of loads lines, concat (fragments_of loads lines), loop_exception lines end_error)"
  by (auto simp: read_stream_def raise_for_status_def iter_lines_fragments)

lemma read_stream_error_status:
  "400 \<le> code \<Longrightarrow> code < 600 \<Longrightarrow>
   read_stream loads (Response code msg lines end_error) = ([], [], Some msg)"
  by (simp add: read_stream_def raise_for_status_def)

lemma stream_response_body:
  assumes up: "env_post e (upstream_request e messages model temperature max_tokens) =
      Response code msg lines end_error"
    and ok: "\<not> (400 \<le> code \<and> code < 600)"
    and ne: "messages \<noteq> []"
  shows "stream_response e uid messages model temperature max_tokens s =
     (case loop_exception lines end_error of
        None \<Rightarrow>
          \<lparr>returned = fragments_of (env_loads e) lines,
           posted = [upstream_request e messages model temperature max_tokens],
           logged = [],
           state_after = save_memory uid (content (last messages))
             (concat (fragments_of (env_loads e) lines)) s\<rparr>
      | Some err \<Rightarrow>
          \<lparr>returned = fragments_of (env_loads e) lines @ [error_fragment err],
           posted = [upstream_request e messages model temperature max_tokens],
           logged = [err], state_after = s\<rparr>)"
proof (cases "loop_exception lines end_error")
  case None
  have "read_stream (env_loads e) (env_post e (upstream_request e messages model temperature max_tokens)) =
      (fragments_of (env_loads e) lines, concat (fragments_of (env_loads e) lines), None)"
    by (simp add: up read_stream_body [OF ok] None)
  from stream_response_completed [OF this ne] show ?thesis by (simp add: None)
next
  case (Some err)
  have "read_stream (env_loads e) (env_post e (upstream_request e messages model temperature max_tokens)) =
      (fragments_of (env_loads e) lines, concat (fragments_of (env_loads e) lines), Some err)"
    by (simp add: up read_stream_body [OF ok] Some)
  from stream_response_failed [OF this] show ?thesis by (simp add: Some)
qed

lemma fragments_of_drop_malformed:
  "fragments_of loads (filter (\<lambda>c. \<not> malformed loads c) lines) = fragments_of loads lines \<and>
   loop_exception (filter (\<lambda>c. \<not> malformed loads c) lines) end_error =
     loop_exception lines end_error"
  using iter_lines_drop_malformed [of loads lines end_error "[]"]
  by (simp add: iter_lines_fragments)

lemma fragment_of_delta:
  "line \<noteq> [] \<Longrightarrow> startswith line (lit ''data: '') \<Longrightarrow> strip (drop 6 line) \<noteq> lit ''[DONE]'' \<Longrightarrow>
   loads (strip (drop 6 line)) = Some (delta_json fragment) \<Longrightarrow>
   fragment_of loads (Text line) = Some fragment"
  by (simp add: fragment_of_def delta_json_def)

lemma fragments_A_garbage_B:
  assumes \<open>loads (lit ''{"choices":[{"delta":{"content":"A"}}]}'') = Some (delta_json (lit ''A''))\<close>
    and \<open>loads (lit ''{"choices":[{"delta":{"content":"B"}}]}'') = Some (delta_json (lit ''B''))\<close>
    and \<open>loads (lit ''{garbage'') = None\<close>
  shows \<open>fragments_of loads
     [Text (lit ''data: {"choices":[{"delta":{"content":"A"}}]}''),
      Text (lit ''data: {garbage''),
      Text (lit ''data: {"choices":[{"delta":{"content":"B"}}]}'')] = [lit ''A'', lit ''B''] \<and>
    loop_exception
     [Text (lit ''data: {"choices":[{"delta":{"content":"A"}}]}''),
      Text (lit ''data: {garbage''),
      Text (lit ''data: {"choices":[{"delta":{"content":"B"}}]}'')] end_error = end_error\<close>
  using iter_lines_A_garbage_B [OF assms, of end_error]
  by (simp only: iter_lines_fragments prod.inject)


text \<open>
  C7. A frame whose \<open>data: \<close> payload \<open>json.loads\<close> rejects is skipped and the stream goes
  on. For every response that \<open>raise_for_status()\<close> lets pass, \<open>stream_response\<close> yields
  exactly the fragments of the chunks read before the loop is left, in their order: the
  text delta of every frame that decodes and carries one, nothing for a malformed frame,
  which neither yields a fragment nor ends the loop; after them comes the error fragment
  if and only if an exception left the loop, and otherwise the concatenation of the
  fragments is committed. Removing the malformed frames from what the upstream delivers
  changes nothing of what \<open>stream_response\<close> returns, posts, logs or stores. In particular
  the frame \<open>data: {garbage\<close> between the frames with contents \<open>A\<close> and \<open>B\<close> yields
  exactly the fragments \<open>A\<close> and \<open>B\<close> and commits \<open>AB\<close>.
\<close>

theorem malformed_frames_are_skipped:
  assumes \<open>env_post e (upstream_request e messages model temperature max_tokens) =
      Response code msg lines end_error\<close>
    and \<open>\<not> (400 \<le> code \<and> code < 600)\<close>
    and \<open>messages \<noteq> []\<close>
    and \<open>sr = stream_response e uid messages model temperature max_tokens s\<close>
  shows
  \<open>returned sr =
     fragments_of (env_loads e) lines @
       (case loop_exception lines end_error of None \<Rightarrow> [] | Some err \<Rightarrow> [error_fragment err]) \<and>
   (loop_exception lines end_error = None \<longrightarrow>
      state_after sr =
        save_memory uid (content (last messages)) (concat (fragments_of (env_loads e) lines)) s) \<and>
   (malformed (env_loads e) c \<longrightarrow> fragment_of (env_loads e) c = None \<and> \<not> ends_loop c) \<and>
   (line \<noteq> [] \<and> startswith line (lit ''data: '') \<and> strip (drop 6 line) \<noteq> lit ''[DONE]'' \<and>
    env_loads e (strip (drop 6 line)) = Some (delta_json fragment) \<longrightarrow>
      fragment_of (env_loads e) (Text line) = Some fragment) \<and>
   fragments_of (env_loads e) (filter (\<lambda>c. \<not> malformed (env_loads e) c) lines) =
     fragments_of (env_loads e) lines \<and>
   loop_exception (filter (\<lambda>c. \<not> malformed (env_loads e) c) lines) end_error =
     loop_exception lines end_error \<and>
   iter_lines (env_loads e) (filter (\<lambda>c. \<not> malformed (env_loads e) c) lines) end_error full =
     iter_lines (env_loads e) lines end_error full \<and>
   stream_response
       (e\<lparr>env_post := \<lambda>q. Response code msg (filter (\<lambda>c. \<not> malformed (env_loads e) c) lines) end_error\<rparr>)
       uid messages model temperature max_tokens s = sr \<and>
   (env_loads e (lit ''{"choices":[{"delta":{"content":"A"}}]}'') = Some (delta_json (lit ''A'')) \<and>
    env_loads e (lit ''{"choices":[{"delta":{"content":"B"}}]}'') = Some (delta_json (lit ''B'')) \<and>
    env_loads e (lit ''{garbage'') = None \<and>
    lines = [Text (lit ''data: {"choices":[{"delta":{"content":"A"}}]}''),
             Text (lit ''data: {garbage''),
             Text (lit ''data: {"choices":[{"delta":{"content":"B"}}]}'')] \<and>
    end_error = None \<longrightarrow>
      malformed (env_loads e) (Text (lit ''data: {garbage'')) \<and>
      returned sr = [lit ''A'', lit ''B''] \<and>
      state_after sr = save_memory uid (content (last messages)) (lit ''AB'') s)\<close>
proof -
  let ?loads = "env_loads e"
  note body = stream_response_body [OF assms(1) assms(2) assms(3), of uid s, folded assms(4)]
  have a: "returned sr =
     fragments_of ?loads lines @
       (case loop_exception lines end_error of None \<Rightarrow> [] | Some err \<Rightarrow> [error_fragment err])"
    by (simp add: body split: option.splits)
  have b: "loop_exception lines end_error = None \<longrightarrow>
      state_after sr =
        save_memory uid (content (last messages)) (concat (fragments_of ?loads lines)) s"
    by (simp add: body)
  have c: "malformed ?loads c \<longrightarrow> fragment_of ?loads c = None \<and> \<not> ends_loop c"
    using malformed_no_fragment by blast
  have d: "line \<noteq> [] \<and> startswith line (lit ''data: '') \<and> strip (drop 6 line) \<noteq> lit ''[DONE]'' \<and>
    ?loads (strip (drop 6 line)) = Some (delta_json fragment) \<longrightarrow>
      fragment_of ?loads (Text line) = Some fragment"
    using fragment_of_delta [of line ?loads fragment] by blast
  note f = fragments_of_drop_malformed [of ?loads lines end_error]
  have g: "iter_lines ?loads (filter (\<lambda>c. \<not> malformed ?loads c) lines) end_error full =
     iter_lines ?loads lines end_error full"
    by (rule iter_lines_drop_malformed)
  have h: "stream_response
       (e\<lparr>env_post := \<lambda>q. Response code msg (filter (\<lambda>c. \<not> malformed ?loads c) lines) end_error\<rparr>)
       uid messages model temperature max_tokens s = sr"
  proof -
    have u: "upstream_request (e\<lparr>env_post := p\<rparr>) messages model temperature max_tokens =
        upstream_request e messages model temperature max_tokens" for p
      by (simp add: upstream_request_def)
    show ?thesis
      by (simp add: assms(1) assms(4) stream_response_def u read_stream_drop_malformed)
  qed
  have i: \<open>?loads (lit ''{"choices":[{"delta":{"content":"A"}}]}'') = Some (delta_json (lit ''A'')) \<and>
    ?loads (lit ''{"choices":[{"delta":{"content":"B"}}]}'') = Some (delta_json (lit ''B'')) \<and>
    ?loads (lit ''{garbage'') = None \<and>
    lines = [Text (lit ''data: {"choices":[{"delta":{"content":"A"}}]}''),
             Text (lit ''data: {garbage''),
             Text (lit ''data: {"choices":[{"delta":{"content":"B"}}]}'')] \<and>
    end_error = None \<longrightarrow>
      malformed ?loads (Text (lit ''data: {garbage'')) \<and>
      returned sr = [lit ''A'', lit ''B''] \<and>
      state_after sr = save_memory uid (content (last messages)) (lit ''AB'') s\<close>
  proof (intro impI, elim conjE)
    assume A: \<open>?loads (lit ''{"choices":[{"delta":{"content":"A"}}]}'') = Some (delta_json (lit ''A''))\<close>
      and B: \<open>?loads (lit ''{"choices":[{"delta":{"content":"B"}}]}'') = Some (delta_json (lit ''B''))\<close>
      and G: \<open>?loads (lit ''{garbage'') = None\<close>
      and L: \<open>lines = [Text (lit ''data: {"choices":[{"delta":{"content":"A"}}]}''),
             Text (lit ''data: {garbage''),
             Text (lit ''data: {"choices":[{"delta":{"content":"B"}}]}'')]\<close>
      and E: "end_error = None"
    note fr = fragments_A_garbage_B [OF A B G, of None, folded L]
    have m: "malformed ?loads (Text (lit ''data: {garbage''))"
      using frame_garbage G by (simp add: malformed_def)
    have AB: "concat [lit ''A'', lit ''B''] = lit ''AB''" by (simp add: lit_def)
    from fr have fo: "fragments_of ?loads lines = [lit ''A'', lit ''B'']"
      and le: "loop_exception lines end_error = None" by (simp_all add: E)
    have r: "returned sr = [lit ''A'', lit ''B'']" by (simp add: a fo le)
    have st: "state_after sr = save_memory uid (content (last messages)) (lit ''AB'') s"
      using b le by (simp only: fo AB)
    from m r st show "malformed ?loads (Text (lit ''data: {garbage'')) \<and>
      returned sr = [lit ''A'', lit ''B''] \<and>
      state_after sr = save_memory uid (content (last messages)) (lit ''AB'') s"
      by blast
  qed
  from a b c d f g h i show ?thesis by blast
qed


lemma env_post_sample [simp]: "env_post (sample_env upstream) q = upstream"
  by (simp add: sample_env_def)

lemma env_loads_sample [simp]: "env_loads (sample_env upstream) = json_loads"
  by (simp add: sample_env_def)

theorem malformed_frames_are_skipped_witness:
  \<open>json_loads (lit ''{"choices":[{"delta":{"content":"A"}}]}'') = Some (delta_json (lit ''A'')) \<and>
   json_loads (lit ''{"choices":[{"delta":{"content":"B"}}]}'') = Some (delta_json (lit ''B'')) \<and>
   json_loads (lit ''{garbage'') = None \<and>
   (200::nat) < 400 \<and>
   malformed json_loads (Text (lit ''data: {garbage'')) \<and>
   fragment_of json_loads (Text (lit ''data: {garbage'')) = None \<and>
   fragment_of json_loads (Text (lit ''data: {"choices":[{"delta":{"content":"A"}}]}'')) = Some (lit ''A'') \<and>
   returned (stream_response
       (sample_env (Response 200 []
          [Text (lit ''data: {"choices":[{"delta":{"content":"A"}}]}''),
           Text (lit ''data: {garbage''),
           Text (lit ''data: {"choices":[{"delta":{"content":"B"}}]}'')] None))
       (lit ''u1'') [\<lparr>role = lit ''user'', content = lit ''hi''\<rparr>] None None None init) =
     [lit ''A'', lit ''B''] \<and>
   history (state_after (stream_response
       (sample_env (Response 200 []
          [Text (lit ''data: {"choices":[{"delta":{"content":"A"}}]}''),
           Text (lit ''data: {garbage''),
           Text (lit ''data: {"choices":[{"delta":{"content":"B"}}]}'')] None))
       (lit ''u1'') [\<lparr>role = lit ''user'', content = lit ''hi''\<rparr>] None None None init)) (lit ''u1'') =
     [\<lparr>role = lit ''user'', content = lit ''hi''\<rparr>, \<lparr>role = lit ''assistant'', content = lit ''AB''\<rparr>]\<close>
proof -
  let ?lines = \<open>[Text (lit ''data: {"choices":[{"delta":{"content":"A"}}]}''),
           Text (lit ''data: {garbage''),
           Text (lit ''data: {"choices":[{"delta":{"content":"B"}}]}'')]\<close>
  let ?e = "sample_env (Response 200 [] ?lines None)"
  let ?m = "[\<lparr>role = lit ''user'', content = lit ''hi''\<rparr>]"
  let ?sr = "stream_response ?e (lit ''u1'') ?m None None None init"
  have h1: "env_post ?e (upstream_request ?e ?m None None None) = Response 200 [] ?lines None"
    by (rule env_post_sample)
  have h2: "\<not> (400 \<le> (200::nat) \<and> (200::nat) < 600)" by simp
  have h3: "?m \<noteq> []" by simp
  note t = malformed_frames_are_skipped [OF h1 h2 h3 refl,
      where c = \<open>Text (lit ''data: {garbage'')\<close>
        and line = \<open>lit ''data: {"choices":[{"delta":{"content":"A"}}]}''\<close>
        and fragment = "lit ''A''" and full = "[]", unfolded env_loads_sample]
  have sA: \<open>json_loads (strip (drop 6 (lit ''data: {"choices":[{"delta":{"content":"A"}}]}''))) =
      Some (delta_json (lit ''A''))\<close>
    using frame_A json_loads_A by simp
  have nd: \<open>strip (drop 6 (lit ''data: {"choices":[{"delta":{"content":"A"}}]}'')) \<noteq> lit ''[DONE]''\<close>
    using frame_A by simp
  from t json_loads_A json_loads_B json_loads_garbage
  have m: "malformed json_loads (Text (lit ''data: {garbage''))"
    and r: "returned ?sr = [lit ''A'', lit ''B'']"
    and st: "state_after ?sr = save_memory (lit ''u1'') (content (last ?m)) (lit ''AB'') init"
    by blast+
  from t m have g: "fragment_of json_loads (Text (lit ''data: {garbage'')) = None" by blast
  from t frame_A nd sA
  have fa: \<open>fragment_of json_loads (Text (lit ''data: {"choices":[{"delta":{"content":"A"}}]}'')) =
      Some (lit ''A'')\<close> by blast
  have hist: "history (state_after ?sr) (lit ''u1'') =
      [\<lparr>role = lit ''user'', content = lit ''hi''\<rparr>, \<lparr>role = lit ''assistant'', content = lit ''AB''\<rparr>]"
  proof -
    have h0: "history init (lit ''u1'') = []"
      by (simp add: history_def get_list_def init_def)
    show ?thesis
      unfolding st
      by (simp add: history_save_memory h0 exchange_def last_n_def MAX_MEMORY_MESSAGES_def)
  qed
  have lt: "(200::nat) < 400" by simp
  from json_loads_A json_loads_B json_loads_garbage lt m g fa r hist show ?thesis by blast
qed

section \<open>Upstream streamer: transport failures\<close>

lemma loop_exception_end:
  assumes "\<forall>c \<in> set lines. \<not> ends_loop c"
  shows "loop_exception lines end_error = end_error"
proof -
  from assms have "dropWhile (\<lambda>c. \<not> ends_loop c) lines = []"
    by (simp add: dropWhile_eq_Nil_conv)
  then show ?thesis unfolding loop_exception_def by (simp only: list.case)
qed

lemma iter_lines_reaches_end:
  "\<forall>c \<in> set lines. \<not> ends_loop c \<Longrightarrow>
   snd (snd (iter_lines loads lines end_error full)) = end_error"
  by (simp add: iter_lines_fragments loop_exception_end)

text \<open>
  C6, as amended. When the upstream call fails by an exception inside the \<open>try\<close> block,
  that is when \<open>requests.post\<close> raises (connection error, timeout), the status is from
  400 to 599 so that \<open>raise_for_status()\<close> raises, or reading the lines raises before the
  loop is left (read timeout), the generator yields the content fragments read so far
  followed by exactly one error fragment, the text \<open>str(e)\<close> behind the prefix of two
  newlines and \<open>Error: \<close>, and ends. Exactly one request is posted: the call is not
  retried. Any other status, also one that is not 2xx, raises nothing: the body is read
  like that of a 2xx response, and when no exception leaves the loop no error fragment
  is yielded and nothing is logged.
\<close>

theorem transport_failure_ends_with_error_fragment:
  assumes "q = upstream_request e messages model temperature max_tokens"
    and "sr = stream_response e uid messages model temperature max_tokens s"
  shows "(env_post e q = PostRaises err \<longrightarrow>
            returned sr = [error_fragment err] \<and> posted sr = [q] \<and> logged sr = [err]) \<and>
         (env_post e q = Response code msg lines end_error \<and> 400 \<le> code \<and> code < 600 \<longrightarrow>
            returned sr = [error_fragment msg] \<and> posted sr = [q] \<and> logged sr = [msg]) \<and>
         (env_post e q = Response code msg lines (Some err) \<and> \<not> (400 \<le> code \<and> code < 600) \<and>
          (\<forall>c \<in> set lines. \<not> ends_loop c) \<longrightarrow>
            returned sr = fragments_of (env_loads e) lines @ [error_fragment err] \<and>
            posted sr = [q] \<and> logged sr = [err]) \<and>
         (snd (snd (read_stream (env_loads e) (env_post e q))) = Some err \<longrightarrow>
            returned sr = fst (read_stream (env_loads e) (env_post e q)) @ [error_fragment err] \<and>
            posted sr = [q] \<and> logged sr = [err]) \<and>
         (env_post e q = Response code msg lines end_error \<and> \<not> (400 \<le> code \<and> code < 600) \<and>
          loop_exception lines end_error = None \<and> messages \<noteq> [] \<longrightarrow>
            returned sr = fragments_of (env_loads e) lines \<and> posted sr = [q] \<and> logged sr = []) \<and>
         error_fragment err = lit ''\<newline>\<newline>Error: '' @ err \<and>
         startswith (error_fragment err) (lit ''\<newline>\<newline>Error: '')"
proof -
  have general: "returned sr = fst (read_stream (env_loads e) (env_post e q)) @ [error_fragment x] \<and>
      posted sr = [q] \<and> logged sr = [x]"
    if failure: "snd (snd (read_stream (env_loads e) (env_post e q))) = Some x" for x
  proof -
    obtain fragments full where
      "read_stream (env_loads e) (env_post e q) = (fragments, full, Some x)"
      using failure by (cases "read_stream (env_loads e) (env_post e q)") auto
    then show ?thesis
      using stream_response_failed [of e messages model temperature max_tokens fragments full x uid s]
      by (simp add: assms)
  qed
  have a: "env_post e q = PostRaises err \<longrightarrow>
      returned sr = [error_fragment err] \<and> posted sr = [q] \<and> logged sr = [err]"
    using general [of err] by (simp add: read_stream_def)
  have b: "env_post e q = Response code msg lines end_error \<and> 400 \<le> code \<and> code < 600 \<longrightarrow>
      returned sr = [error_fragment msg] \<and> posted sr = [q] \<and> logged sr = [msg]"
    using general [of msg] by (auto simp: read_stream_error_status)
  have c: "env_post e q = Response code msg lines (Some err) \<and> \<not> (400 \<le> code \<and> code < 600) \<and>
      (\<forall>c \<in> set lines. \<not> ends_loop c) \<longrightarrow>
      returned sr = fragments_of (env_loads e) lines @ [error_fragment err] \<and>
      posted sr = [q] \<and> logged sr = [err]"
  proof (intro impI, elim conjE)
    assume up: "env_post e q = Response code msg lines (Some err)"
      and ok: "\<not> (400 \<le> code \<and> code < 600)" and all: "\<forall>c \<in> set lines. \<not> ends_loop c"
    have "read_stream (env_loads e) (env_post e q) =
        (fragments_of (env_loads e) lines, concat (fragments_of (env_loads e) lines), Some err)"
      by (simp add: up read_stream_body [OF ok] loop_exception_end [OF all])
    with general [of err]
    show "returned sr = fragments_of (env_loads e) lines @ [error_fragment err] \<and>
      posted sr = [q] \<and> logged sr = [err]" by simp
  qed
  have d: "snd (snd (read_stream (env_loads e) (env_post e q))) = Some err \<longrightarrow>
      returned sr = fst (read_stream (env_loads e) (env_post e q)) @ [error_fragment err] \<and>
      posted sr = [q] \<and> logged sr = [err]"
    using general [of err] by blast
  have f: "env_post e q = Response code msg lines end_error \<and> \<not> (400 \<le> code \<and> code < 600) \<and>
      loop_exception lines end_error = None \<and> messages \<noteq> [] \<longrightarrow>
      returned sr = fragments_of (env_loads e) lines \<and> posted sr = [q] \<and> logged sr = []"
  proof (intro impI, elim conjE)
    assume up: "env_post e q = Response code msg lines end_error"
      and ok: "\<not> (400 \<le> code \<and> code < 600)"
      and le: "loop_exception lines end_error = None" and ne: "messages \<noteq> []"
    from stream_response_body [OF up [unfolded assms(1)] ok ne, of uid s]
    show "returned sr = fragments_of (env_loads e) lines \<and> posted sr = [q] \<and> logged sr = []"
      by (simp add: le assms)
  qed
  have p: "error_fragment err = lit ''\<newline>\<newline>Error: '' @ err \<and>
      startswith (error_fragment err) (lit ''\<newline>\<newline>Error: '')"
    by (simp add: error_fragment_def startswith_def)
  from a b c d f p show ?thesis by blast
qed

text \<open>
  C6 as stated fails for a status that is not 2xx and not an error status: a response
  with status 302 and an empty body yields no error fragment, and nothing is logged.
\<close>

theorem transport_failure_status_counterexample:
  "\<not> (200 \<le> (302::nat) \<and> (302::nat) < 300) \<and>
   returned (stream_response (sample_env (Response 302 [] [] None)) (lit ''u1'')
       [\<lparr>role = lit ''user'', content = lit ''hi''\<rparr>] None None None init) = [] \<and>
   logged (stream_response (sample_env (Response 302 [] [] None)) (lit ''u1'')
       [\<lparr>role = lit ''user'', content = lit ''hi''\<rparr>] None None None init) = []"
proof -
  let ?e = "sample_env (Response 302 [] [] None)"
  let ?m = "[\<lparr>role = lit ''user'', content = lit ''hi''\<rparr>]"
  have up: "env_post ?e (upstream_request ?e ?m None None None) = Response 302 [] [] None"
    by (rule env_post_sample)
  have ok: "\<not> (400 \<le> (302::nat) \<and> (302::nat) < 600)" by simp
  have ne: "?m \<noteq> []" by simp
  have f: "fragments_of json_loads [] = []" and l: "loop_exception [] None = None"
    by (simp_all add: fragments_of_def processed_def loop_exception_def map_filter_simps)
  from stream_response_body [OF up ok ne, of "lit ''u1''" init]
  show ?thesis by (simp add: f l)
qed


lemma fragments_of_A:
  \<open>fragments_of json_loads [Text (lit ''data: {"choices":[{"delta":{"content":"A"}}]}'')] = [lit ''A''] \<and>
   \<not> ends_loop (Text (lit ''data: {"choices":[{"delta":{"content":"A"}}]}''))\<close>
proof -
  let ?A = \<open>Text (lit ''data: {"choices":[{"delta":{"content":"A"}}]}'')\<close>
  have nl: "\<not> ends_loop ?A"
    using frame_A by (simp add: ends_loop_def)
  have sA: \<open>json_loads (strip (drop 6 (lit ''data: {"choices":[{"delta":{"content":"A"}}]}''))) =
      Some (delta_json (lit ''A''))\<close>
    using frame_A json_loads_A by simp
  have nd: \<open>strip (drop 6 (lit ''data: {"choices":[{"delta":{"content":"A"}}]}'')) \<noteq> lit ''[DONE]''\<close>
    using frame_A by simp
  have fa: "fragment_of json_loads ?A = Some (lit ''A'')"
    by (rule fragment_of_delta [where loads = json_loads, OF frame_A [THEN conjunct1]
          frame_A [THEN conjunct2, THEN conjunct1] nd sA])
  have "processed [?A] = [?A]" using nl by (simp add: processed_def)
  then have "fragments_of json_loads [?A] = [lit ''A'']"
    by (simp only: fragments_of_def map_filter_simps fa option.case)
  with nl show ?thesis by blast
qed

theorem transport_failure_ends_with_error_fragment_witness:
  \<open>returned (stream_response (sample_env (PostRaises (lit ''connection refused''))) (lit ''u1'')
       [\<lparr>role = lit ''user'', content = lit ''hi''\<rparr>] None None None init) =
     [lit ''\<newline>\<newline>Error: connection refused''] \<and>
   length (posted (stream_response (sample_env (PostRaises (lit ''connection refused''))) (lit ''u1'')
       [\<lparr>role = lit ''user'', content = lit ''hi''\<rparr>] None None None init)) = 1 \<and>
   logged (stream_response (sample_env (PostRaises (lit ''connection refused''))) (lit ''u1'')
       [\<lparr>role = lit ''user'', content = lit ''hi''\<rparr>] None None None init) =
     [lit ''connection refused''] \<and>
   400 \<le> (500::nat) \<and> (500::nat) < 600 \<and>
   returned (stream_response (sample_env (Response 500 (lit ''500 Server Error'') [] None)) (lit ''u1'')
       [\<lparr>role = lit ''user'', content = lit ''hi''\<rparr>] None None None init) =
     [lit ''\<newline>\<newline>Error: 500 Server Error''] \<and>
   \<not> ends_loop (Text (lit ''data: {"choices":[{"delta":{"content":"A"}}]}'')) \<and>
   returned (stream_response
       (sample_env (Response 200 [] [Text (lit ''data: {"choices":[{"delta":{"content":"A"}}]}'')]
          (Some (lit ''Read timed out.''))))
       (lit ''u1'') [\<lparr>role = lit ''user'', content = lit ''hi''\<rparr>] None None None init) =
     [lit ''A'', lit ''\<newline>\<newline>Error: Read timed out.''] \<and>
   (302::nat) < 400 \<and>
   returned (stream_response
       (sample_env (Response 302 [] [Text (lit ''data: {"choices":[{"delta":{"content":"A"}}]}'')] None))
       (lit ''u1'') [\<lparr>role = lit ''user'', content = lit ''hi''\<rparr>] None None None init) =
     [lit ''A''] \<and>
   logged (stream_response
       (sample_env (Response 302 [] [Text (lit ''data: {"choices":[{"delta":{"content":"A"}}]}'')] None))
       (lit ''u1'') [\<lparr>role = lit ''user'', content = lit ''hi''\<rparr>] None None None init) = []\<close>
proof -
  let ?m = "[\<lparr>role = lit ''user'', content = lit ''hi''\<rparr>]"
  let ?A = \<open>Text (lit ''data: {"choices":[{"delta":{"content":"A"}}]}'')\<close>
  let ?e1 = "sample_env (PostRaises (lit ''connection refused''))"
  let ?e2 = "sample_env (Response 500 (lit ''500 Server Error'') [] None)"
  let ?e3 = "sample_env (Response 200 [] [?A] (Some (lit ''Read timed out.'')))"
  let ?e4 = "sample_env (Response 302 [] [?A] None)"
  note t1 = transport_failure_ends_with_error_fragment [OF refl refl,
      where e = ?e1 and messages = ?m and model = None and temperature = None and max_tokens = None
        and err = "lit ''connection refused''" and uid = "lit ''u1''" and s = init]
  note t2 = transport_failure_ends_with_error_fragment [OF refl refl,
      where e = ?e2 and messages = ?m and model = None and temperature = None and max_tokens = None
        and code = 500 and msg = "lit ''500 Server Error''" and lines = "[]" and end_error = None
        and uid = "lit ''u1''" and s = init]
  note t3 = transport_failure_ends_with_error_fragment [OF refl refl,
      where e = ?e3 and messages = ?m and model = None and temperature = None and max_tokens = None
        and code = 200 and msg = "[]" and lines = "[?A]" and err = "lit ''Read timed out.''"
        and uid = "lit ''u1''" and s = init]
  note t4 = transport_failure_ends_with_error_fragment [OF refl refl,
      where e = ?e4 and messages = ?m and model = None and temperature = None and max_tokens = None
        and code = 302 and msg = "[]" and lines = "[?A]" and end_error = None
        and uid = "lit ''u1''" and s = init]
  note fA = fragments_of_A [THEN conjunct1] and nl = fragments_of_A [THEN conjunct2]
  have f1: "error_fragment (lit ''connection refused'') = lit ''\<newline>\<newline>Error: connection refused''"
    and f2: "error_fragment (lit ''500 Server Error'') = lit ''\<newline>\<newline>Error: 500 Server Error''"
    and f3: "error_fragment (lit ''Read timed out.'') = lit ''\<newline>\<newline>Error: Read timed out.''"
    by (simp_all add: error_fragment_def lit_def)
  have h1: "env_post ?e1 (upstream_request ?e1 ?m None None None) = PostRaises (lit ''connection refused'')"
    by (rule env_post_sample)
  have h2: "env_post ?e2 (upstream_request ?e2 ?m None None None) =
      Response 500 (lit ''500 Server Error'') [] None \<and> 400 \<le> (500::nat) \<and> (500::nat) < 600"
    by simp
  have h3: "env_post ?e3 (upstream_request ?e3 ?m None None None) =
      Response 200 [] [?A] (Some (lit ''Read timed out.'')) \<and>
      \<not> (400 \<le> (200::nat) \<and> (200::nat) < 600) \<and> (\<forall>c \<in> set [?A]. \<not> ends_loop c)"
    using nl by simp
  have l4: "loop_exception [?A] None = None"
    using nl by (intro loop_exception_end) simp
  have h4: "env_post ?e4 (upstream_request ?e4 ?m None None None) = Response 302 [] [?A] None \<and>
      \<not> (400 \<le> (302::nat) \<and> (302::nat) < 600) \<and> loop_exception [?A] None = None \<and> ?m \<noteq> []"
    using l4 by simp
  from t1 h1 have c1: "returned (stream_response ?e1 (lit ''u1'') ?m None None None init) =
      [error_fragment (lit ''connection refused'')]"
    and c2: "posted (stream_response ?e1 (lit ''u1'') ?m None None None init) =
      [upstream_request ?e1 ?m None None None]"
    and c3: "logged (stream_response ?e1 (lit ''u1'') ?m None None None init) = [lit ''connection refused'']"
    by blast+
  from t2 h2 have c4: "returned (stream_response ?e2 (lit ''u1'') ?m None None None init) =
      [error_fragment (lit ''500 Server Error'')]" by blast
  from t3 h3 have c5: "returned (stream_response ?e3 (lit ''u1'') ?m None None None init) =
      fragments_of (env_loads ?e3) [?A] @ [error_fragment (lit ''Read timed out.'')]" by blast
  from t4 h4 have c6: "returned (stream_response ?e4 (lit ''u1'') ?m None None None init) =
      fragments_of (env_loads ?e4) [?A]"
    and c7: "logged (stream_response ?e4 (lit ''u1'') ?m None None None init) = []" by blast+
  have d1: "returned (stream_response ?e1 (lit ''u1'') ?m None None None init) =
      [lit ''\<newline>\<newline>Error: connection refused'']" by (simp only: c1 f1)
  have d2: "length (posted (stream_response ?e1 (lit ''u1'') ?m None None None init)) = 1"
    by (simp add: c2)
  have d4: "returned (stream_response ?e2 (lit ''u1'') ?m None None None init) =
      [lit ''\<newline>\<newline>Error: 500 Server Error'']" by (simp only: c4 f2)
  have d5: "returned (stream_response ?e3 (lit ''u1'') ?m None None None init) =
      [lit ''A'', lit ''\<newline>\<newline>Error: Read timed out.'']"
    by (simp only: c5 env_loads_sample fA f3 append_Cons append_Nil)
  have d6: "returned (stream_response ?e4 (lit ''u1'') ?m None None None init) = [lit ''A'']"
    by (simp only: c6 env_loads_sample fA)
  have n: "400 \<le> (500::nat) \<and> (500::nat) < 600 \<and> (302::nat) < 400" by simp
  from d1 d2 c3 n d4 nl d5 d6 c7 show ?thesis by blast
qed

section \<open>Chat orchestrator: what a failed stream commits\<close>

lemma chat_posted:
  assumes "posted (chat e r s) = [q]"
  shows "strip (req_message r) \<noteq> [] \<and> length (strip (req_message r)) \<le> MAX_MESSAGE_LENGTH \<and>
     fst (rate_limit (env_now e) (get_user_id e (req_uid r))
           (s\<lparr>STATS := (STATS s)\<lparr>requests := requests (STATS s) + 1\<rparr>\<rparr>)) \<and>
     q = upstream_request e
           (build_messages (get_user_id e (req_uid r)) (strip (req_message r))
              (snd (rate_limit (env_now e) (get_user_id e (req_uid r))
                     (s\<lparr>STATS := (STATS s)\<lparr>requests := requests (STATS s) + 1\<rparr>\<rparr>))))
           (req_model r) (req_temperature r) (req_max_tokens r)"
proof -
  have v: "strip (req_message r) \<noteq> [] \<and> length (strip (req_message r)) \<le> MAX_MESSAGE_LENGTH"
  proof (rule ccontr)
    assume "\<not> ?thesis"
    then have "strip (req_message r) = [] \<or> MAX_MESSAGE_LENGTH < length (strip (req_message r))"
      by auto
    then have "posted (chat e r s) = []" by (simp add: chat_rejects_invalid)
    with assms show False by simp
  qed
  then have c: "chat e r s = (let uid = get_user_id e (req_uid r);
          s1 = s\<lparr>STATS := (STATS s)\<lparr>requests := requests (STATS s) + 1\<rparr>\<rparr>;
          s2 = snd (rate_limit (env_now e) uid s1)
      in if fst (rate_limit (env_now e) uid s1)
         then (let sr = stream_response e uid (build_messages uid (strip (req_message r)) s2)
                          (req_model r) (req_temperature r) (req_max_tokens r) s2
               in \<lparr>returned = StreamingResponse (returned sr), posted = posted sr,
                   logged = logged sr, state_after = state_after sr\<rparr>)
         else \<lparr>returned = JSONReply (lit ''limited'') (lit ''Chill for a sec '' @ [0x23F3]),
               posted = [], logged = [], state_after = s2\<rparr>)"
    by (intro chat_valid) simp_all
  from assms have "fst (rate_limit (env_now e) (get_user_id e (req_uid r))
           (s\<lparr>STATS := (STATS s)\<lparr>requests := requests (STATS s) + 1\<rparr>\<rparr>)) \<and>
     q = upstream_request e
           (build_messages (get_user_id e (req_uid r)) (strip (req_message r))
              (snd (rate_limit (env_now e) (get_user_id e (req_uid r))
                     (s\<lparr>STATS := (STATS s)\<lparr>requests := requests (STATS s) + 1\<rparr>\<rparr>))))
           (req_model r) (req_temperature r) (req_max_tokens r)"
    by (simp add: c Let_def posted_stream_response split: if_splits)
  with v show ?thesis by blast
qed

lemma chat_streamed:
  assumes "posted (chat e r s) = [q]"
  shows "\<exists>s2. USER_MEMORY s2 = USER_MEMORY s \<and>
     chat e r s =
       (let sr = stream_response e (get_user_id e (req_uid r))
                   (build_messages (get_user_id e (req_uid r)) (strip (req_message r)) s2)
                   (req_model r) (req_temperature r) (req_max_tokens r) s2
        in \<lparr>returned = StreamingResponse (returned sr), posted = posted sr,
            logged = logged sr, state_after = state_after sr\<rparr>) \<and>
     q = upstream_request e
           (build_messages (get_user_id e (req_uid r)) (strip (req_message r)) s2)
           (req_model r) (req_temperature r) (req_max_tokens r)"
proof -
  let ?s1 = "s\<lparr>STATS := (STATS s)\<lparr>requests := requests (STATS s) + 1\<rparr>\<rparr>"
  let ?s2 = "snd (rate_limit (env_now e) (get_user_id e (req_uid r)) ?s1)"
  note p = chat_posted [OF assms]
  have m: "USER_MEMORY ?s2 = USER_MEMORY s"
    by (simp add: rate_limit_keeps_rest)
  have c: "chat e r s =
       (let sr = stream_response e (get_user_id e (req_uid r))
                   (build_messages (get_user_id e (req_uid r)) (strip (req_message r)) ?s2)
                   (req_model r) (req_temperature r) (req_max_tokens r) ?s2
        in \<lparr>returned = StreamingResponse (returned sr), posted = posted sr,
            logged = logged sr, state_after = state_after sr\<rparr>)"
    using p by (simp add: chat_valid Let_def)
  from m c p show ?thesis by blast
qed

text \<open>
  C5, as amended. When the stream of a chat request ends by an exception inside the
  \<open>try\<close> block, that is when \<open>requests.post\<close> raises (connection error, timeout), the
  status is from 400 to 599 so that \<open>raise_for_status()\<close> raises, or reading or decoding
  a line raises, nothing is committed: the conversation histories are as they were
  before the request. The fragments read so far and the error fragment go to the client
  only, and the error text is logged. For any other status, also one that is not 2xx,
  nothing is raised for the status: when the lines are read without an exception, the
  turn is committed with the user text and the accumulated text, which is empty when
  the body carries no fragment.
\<close>

theorem transport_failure_commits_nothing:
  assumes "posted (chat e r s) = [q]"
  shows
  "(env_post e q = PostRaises err \<longrightarrow>
      USER_MEMORY (state_after (chat e r s)) = USER_MEMORY s \<and>
      returned (chat e r s) = StreamingResponse [error_fragment err] \<and>
      logged (chat e r s) = [err]) \<and>
   (env_post e q = Response code msg lines end_error \<and> 400 \<le> code \<and> code < 600 \<longrightarrow>
      USER_MEMORY (state_after (chat e r s)) = USER_MEMORY s \<and>
      returned (chat e r s) = StreamingResponse [error_fragment msg] \<and>
      logged (chat e r s) = [msg]) \<and>
   (env_post e q = Response code msg lines end_error \<and> \<not> (400 \<le> code \<and> code < 600) \<and>
    loop_exception lines end_error = Some err \<longrightarrow>
      USER_MEMORY (state_after (chat e r s)) = USER_MEMORY s \<and>
      returned (chat e r s) =
        StreamingResponse (fragments_of (env_loads e) lines @ [error_fragment err]) \<and>
      logged (chat e r s) = [err]) \<and>
   (snd (snd (read_stream (env_loads e) (env_post e q))) = Some err \<longrightarrow>
      USER_MEMORY (state_after (chat e r s)) = USER_MEMORY s \<and>
      returned (chat e r s) =
        StreamingResponse (fst (read_stream (env_loads e) (env_post e q)) @ [error_fragment err]) \<and>
      logged (chat e r s) = [err]) \<and>
   (env_post e q = Response code msg lines end_error \<and> \<not> (400 \<le> code \<and> code < 600) \<and>
    loop_exception lines end_error = None \<longrightarrow>
      history (state_after (chat e r s)) (get_user_id e (req_uid r)) =
        last_n (2 * MAX_MEMORY_MESSAGES)
          (history s (get_user_id e (req_uid r)) @
             [\<lparr>role = lit ''user'', content = strip (req_message r)\<rparr>,
              \<lparr>role = lit ''assistant'', content = concat (fragments_of (env_loads e) lines)\<rparr>]) \<and>
      returned (chat e r s) = StreamingResponse (fragments_of (env_loads e) lines) \<and>
      logged (chat e r s) = [])"
proof -
  let ?uid = "get_user_id e (req_uid r)" and ?msg = "strip (req_message r)"
  from chat_streamed [OF assms] obtain s2 where
    m: "USER_MEMORY s2 = USER_MEMORY s"
    and c: "chat e r s =
       (let sr = stream_response e ?uid (build_messages ?uid ?msg s2)
                   (req_model r) (req_temperature r) (req_max_tokens r) s2
        in \<lparr>returned = StreamingResponse (returned sr), posted = posted sr,
            logged = logged sr, state_after = state_after sr\<rparr>)"
    and q: "q = upstream_request e (build_messages ?uid ?msg s2)
           (req_model r) (req_temperature r) (req_max_tokens r)"
    by blast
  have general: "USER_MEMORY (state_after (chat e r s)) = USER_MEMORY s \<and>
      returned (chat e r s) =
        StreamingResponse (fst (read_stream (env_loads e) (env_post e q)) @ [error_fragment x]) \<and>
      logged (chat e r s) = [x]"
    if failure: "snd (snd (read_stream (env_loads e) (env_post e q))) = Some x" for x
  proof -
    obtain fragments full where
      rs: "read_stream (env_loads e) (env_post e q) = (fragments, full, Some x)"
      using failure by (cases "read_stream (env_loads e) (env_post e q)") auto
    show ?thesis
      using stream_response_failed [OF rs [unfolded q], of ?uid s2]
      by (simp add: c Let_def m rs q [symmetric])
  qed
  have a: "env_post e q = PostRaises err \<longrightarrow>
      USER_MEMORY (state_after (chat e r s)) = USER_MEMORY s \<and>
      returned (chat e r s) = StreamingResponse [error_fragment err] \<and>
      logged (chat e r s) = [err]"
    using general [of err] by (simp add: read_stream_def)
  have b: "env_post e q = Response code msg lines end_error \<and> 400 \<le> code \<and> code < 600 \<longrightarrow>
      USER_MEMORY (state_after (chat e r s)) = USER_MEMORY s \<and>
      returned (chat e r s) = StreamingResponse [error_fragment msg] \<and>
      logged (chat e r s) = [msg]"
    using general [of msg] by (auto simp: read_stream_error_status)
  have d: "env_post e q = Response code msg lines end_error \<and> \<not> (400 \<le> code \<and> code < 600) \<and>
    loop_exception lines end_error = Some err \<longrightarrow>
      USER_MEMORY (state_after (chat e r s)) = USER_MEMORY s \<and>
      returned (chat e r s) =
        StreamingResponse (fragments_of (env_loads e) lines @ [error_fragment err]) \<and>
      logged (chat e r s) = [err]"
  proof (intro impI, elim conjE)
    assume up: "env_post e q = Response code msg lines end_error"
      and ok: "\<not> (400 \<le> code \<and> code < 600)" and le: "loop_exception lines end_error = Some err"
    have "read_stream (env_loads e) (env_post e q) =
        (fragments_of (env_loads e) lines, concat (fragments_of (env_loads e) lines), Some err)"
      by (simp add: up read_stream_body [OF ok] le)
    with general [of err]
    show "USER_MEMORY (state_after (chat e r s)) = USER_MEMORY s \<and>
      returned (chat e r s) =
        StreamingResponse (fragments_of (env_loads e) lines @ [error_fragment err]) \<and>
      logged (chat e r s) = [err]" by simp
  qed
  have g: "snd (snd (read_stream (env_loads e) (env_post e q))) = Some err \<longrightarrow>
      USER_MEMORY (state_after (chat e r s)) = USER_MEMORY s \<and>
      returned (chat e r s) =
        StreamingResponse (fst (read_stream (env_loads e) (env_post e q)) @ [error_fragment err]) \<and>
      logged (chat e r s) = [err]"
    using general [of err] by blast
  have f: "env_post e q = Response code msg lines end_error \<and> \<not> (400 \<le> code \<and> code < 600) \<and>
    loop_exception lines end_error = None \<longrightarrow>
      history (state_after (chat e r s)) ?uid =
        last_n (2 * MAX_MEMORY_MESSAGES)
          (history s ?uid @
             [\<lparr>role = lit ''user'', content = ?msg\<rparr>,
              \<lparr>role = lit ''assistant'', content = concat (fragments_of (env_loads e) lines)\<rparr>]) \<and>
      returned (chat e r s) = StreamingResponse (fragments_of (env_loads e) lines) \<and>
      logged (chat e r s) = []"
  proof (intro impI, elim conjE)
    assume up: "env_post e q = Response code msg lines end_error"
      and ok: "\<not> (400 \<le> code \<and> code < 600)" and le: "loop_exception lines end_error = None"
    have ne: "build_messages ?uid ?msg s2 \<noteq> []"
      and l: "content (last (build_messages ?uid ?msg s2)) = ?msg"
      by (simp_all add: build_messages_def)
    have h: "history s2 ?uid = history s ?uid" by (simp add: history_def m)
    note sr = stream_response_body [OF up [unfolded q] ok ne, of ?uid s2, unfolded le l option.case]
    show "history (state_after (chat e r s)) ?uid =
        last_n (2 * MAX_MEMORY_MESSAGES)
          (history s ?uid @
             [\<lparr>role = lit ''user'', content = ?msg\<rparr>,
              \<lparr>role = lit ''assistant'', content = concat (fragments_of (env_loads e) lines)\<rparr>]) \<and>
      returned (chat e r s) = StreamingResponse (fragments_of (env_loads e) lines) \<and>
      logged (chat e r s) = []"
      unfolding c Let_def sr
      by (simp add: history_save_memory h exchange_def mult.commute)
  qed
  from a b d g f show ?thesis by blast
qed

lemma sample_chat_streams:
  assumes "strip m = m" "m \<noteq> []" "length m \<le> MAX_MESSAGE_LENGTH"
  shows "\<exists>s2. USER_MEMORY s2 = Map.empty \<and>
     chat (sample_env upstream) (sample_chat m) init =
       (let sr = stream_response (sample_env upstream) (lit ''u1'')
                   [\<lparr>role = lit ''system'', content = BASE_SYSTEM_PROMPT\<rparr>,
                    \<lparr>role = lit ''user'', content = m\<rparr>]
                   (Some (lit ''fast'')) (Some (65 / 100)) (Some 1024) s2
        in \<lparr>returned = StreamingResponse (returned sr), posted = posted sr,
            logged = logged sr, state_after = state_after sr\<rparr>)"
proof -
  let ?e = "sample_env upstream" and ?r = "sample_chat m"
  let ?s1 = "init\<lparr>STATS := (STATS init)\<lparr>requests := requests (STATS init) + 1\<rparr>\<rparr>"
  let ?s2 = "snd (rate_limit (env_now ?e) (get_user_id ?e (req_uid ?r)) ?s1)"
  have msg: "strip (req_message ?r) = m" using assms(1) by (simp add: sample_chat_def)
  have u: "get_user_id ?e (req_uid ?r) = lit ''u1''"
    by (simp add: get_user_id_def sample_chat_def lit_def)
  have mem: "USER_MEMORY ?s2 = Map.empty"
    by (simp add: rate_limit_keeps_rest init_def)
  have ok: "fst (rate_limit (env_now ?e) (get_user_id ?e (req_uid ?r)) ?s1)"
    by (simp add: fst_rate_limit window_def get_list_def init_def REQUESTS_PER_MINUTE_def)
  have b: "build_messages (lit ''u1'') m ?s2 =
      [\<lparr>role = lit ''system'', content = BASE_SYSTEM_PROMPT\<rparr>, \<lparr>role = lit ''user'', content = m\<rparr>]"
    by (simp add: build_messages_def mem get_list_def)
  have v: "strip (req_message ?r) \<noteq> []" "length (strip (req_message ?r)) \<le> MAX_MESSAGE_LENGTH"
    using assms by (simp_all add: msg)
  have "chat ?e ?r init =
       (let sr = stream_response ?e (lit ''u1'')
                   [\<lparr>role = lit ''system'', content = BASE_SYSTEM_PROMPT\<rparr>,
                    \<lparr>role = lit ''user'', content = m\<rparr>]
                   (Some (lit ''fast'')) (Some (65 / 100)) (Some 1024) ?s2
        in \<lparr>returned = StreamingResponse (returned sr), posted = posted sr,
            logged = logged sr, state_after = state_after sr\<rparr>)"
    using ok b by (simp add: chat_valid [OF v] Let_def msg u) (simp add: sample_chat_def)
  with mem show ?thesis by blast
qed

lemma strip_hi: "strip (lit ''hi'') = lit ''hi'' \<and> lit ''hi'' \<noteq> [] \<and> length (lit ''hi'') \<le> MAX_MESSAGE_LENGTH"
  by (simp add: strip_def lit_def isspace_def MAX_MESSAGE_LENGTH_def)

text \<open>
  C5 as stated fails: when \<open>requests.post\<close> raises, the client gets the error fragment
  and the identity's history stays empty; no turn is committed.
\<close>

theorem transport_failure_commit_counterexample:
  "posted (chat (sample_env (PostRaises (lit ''connection refused''))) (sample_chat (lit ''hi'')) init) \<noteq> [] \<and>
   returned (chat (sample_env (PostRaises (lit ''connection refused''))) (sample_chat (lit ''hi'')) init) =
     StreamingResponse [lit ''\<newline>\<newline>Error: connection refused''] \<and>
   history (state_after
      (chat (sample_env (PostRaises (lit ''connection refused''))) (sample_chat (lit ''hi'')) init))
     (lit ''u1'') = []"
proof -
  let ?e = "sample_env (PostRaises (lit ''connection refused''))"
  let ?m = "[\<lparr>role = lit ''system'', content = BASE_SYSTEM_PROMPT\<rparr>,
             \<lparr>role = lit ''user'', content = lit ''hi''\<rparr>]"
  from sample_chat_streams [of "lit ''hi''" "PostRaises (lit ''connection refused'')"] strip_hi
  obtain s2 where mem: "USER_MEMORY s2 = Map.empty"
    and c: "chat ?e (sample_chat (lit ''hi'')) init =
       (let sr = stream_response ?e (lit ''u1'') ?m (Some (lit ''fast'')) (Some (65 / 100)) (Some 1024) s2
        in \<lparr>returned = StreamingResponse (returned sr), posted = posted sr,
            logged = logged sr, state_after = state_after sr\<rparr>)"
    by blast
  have rs: "read_stream (env_loads ?e)
      (env_post ?e (upstream_request ?e ?m (Some (lit ''fast'')) (Some (65 / 100)) (Some 1024))) =
      ([], [], Some (lit ''connection refused''))"
    by (simp add: read_stream_def)
  have f: "error_fragment (lit ''connection refused'') = lit ''\<newline>\<newline>Error: connection refused''"
    by (simp add: error_fragment_def lit_def)
  note c' = c [unfolded Let_def stream_response_failed [OF rs]]
  show ?thesis
    unfolding c' by (simp add: f history_def get_list_def mem)
qed

lemma sample_chat_posted:
  "posted (chat (sample_env upstream) (sample_chat (lit ''hi'')) init) =
     [upstream_request (sample_env upstream)
        [\<lparr>role = lit ''system'', content = BASE_SYSTEM_PROMPT\<rparr>,
         \<lparr>role = lit ''user'', content = lit ''hi''\<rparr>]
        (Some (lit ''fast'')) (Some (65 / 100)) (Some 1024)]"
  using sample_chat_streams [of "lit ''hi''" upstream] strip_hi
  by (auto simp: Let_def posted_stream_response)

theorem transport_failure_commits_nothing_witness:
  "length (posted (chat (sample_env (PostRaises (lit ''connection refused''))) (sample_chat (lit ''hi'')) init)) = 1 \<and>
   USER_MEMORY (state_after
      (chat (sample_env (PostRaises (lit ''connection refused''))) (sample_chat (lit ''hi'')) init)) =
     USER_MEMORY init \<and>
   logged (chat (sample_env (PostRaises (lit ''connection refused''))) (sample_chat (lit ''hi'')) init) =
     [lit ''connection refused''] \<and>
   400 \<le> (500::nat) \<and> (500::nat) < 600 \<and>
   USER_MEMORY (state_after
      (chat (sample_env (Response 500 (lit ''500 Server Error'') [] None)) (sample_chat (lit ''hi'')) init)) =
     USER_MEMORY init \<and>
   returned (chat (sample_env (Response 500 (lit ''500 Server Error'') [] None)) (sample_chat (lit ''hi'')) init) =
     StreamingResponse [error_fragment (lit ''500 Server Error'')] \<and>
   (302::nat) < 400 \<and> loop_exception [] None = None \<and>
   returned (chat (sample_env (Response 302 [] [] None)) (sample_chat (lit ''hi'')) init) =
     StreamingResponse [] \<and>
   history (state_after (chat (sample_env (Response 302 [] [] None)) (sample_chat (lit ''hi'')) init))
       (lit ''u1'') =
     [\<lparr>role = lit ''user'', content = lit ''hi''\<rparr>, \<lparr>role = lit ''assistant'', content = []\<rparr>]"
proof -
  let ?r = "sample_chat (lit ''hi'')"
  let ?e1 = "sample_env (PostRaises (lit ''connection refused''))"
  let ?e2 = "sample_env (Response 500 (lit ''500 Server Error'') [] None)"
  let ?e3 = "sample_env (Response 302 [] [] None)"
  note t1 = transport_failure_commits_nothing [OF sample_chat_posted [of "PostRaises (lit ''connection refused'')"],
      where err = "lit ''connection refused''"]
  note t2 = transport_failure_commits_nothing [OF sample_chat_posted [of "Response 500 (lit ''500 Server Error'') [] None"],
      where code = 500 and msg = "lit ''500 Server Error''" and lines = "[]" and end_error = None]
  note t3 = transport_failure_commits_nothing [OF sample_chat_posted [of "Response 302 [] [] None"],
      where code = 302 and msg = "[]" and lines = "[]" and end_error = None]
  have n: "400 \<le> (500::nat) \<and> (500::nat) < 600 \<and> (302::nat) < 400" by simp
  have l: "loop_exception [] None = None" by (simp add: loop_exception_def)
  have f: "fragments_of json_loads [] = []"
    by (simp add: fragments_of_def processed_def map_filter_simps)
  have u: "get_user_id ?e3 (req_uid ?r) = lit ''u1''"
    by (simp add: get_user_id_def sample_chat_def lit_def)
  have m: "strip (req_message ?r) = lit ''hi''"
    using strip_hi by (simp add: sample_chat_def)
  have h0: "history init (lit ''u1'') = []"
    by (simp add: history_def get_list_def init_def)
  from t1 have c1: "USER_MEMORY (state_after (chat ?e1 ?r init)) = USER_MEMORY init"
    and c2: "logged (chat ?e1 ?r init) = [lit ''connection refused'']"
    by simp_all
  from t2 n have c3: "USER_MEMORY (state_after (chat ?e2 ?r init)) = USER_MEMORY init"
    and c4: "returned (chat ?e2 ?r init) = StreamingResponse [error_fragment (lit ''500 Server Error'')]"
    by simp_all
  from t3 l have c5: "returned (chat ?e3 ?r init) = StreamingResponse []"
    and c6: "history (state_after (chat ?e3 ?r init)) (lit ''u1'') =
      [\<lparr>role = lit ''user'', content = lit ''hi''\<rparr>, \<lparr>role = lit ''assistant'', content = []\<rparr>]"
    by (simp_all add: f u m h0 last_n_def MAX_MEMORY_MESSAGES_def)
  have p: "length (posted (chat ?e1 ?r init)) = 1"
    by (simp add: sample_chat_posted)
  from p c1 c2 n c3 c4 l c5 c6 show ?thesis by blast
qed

section \<open>Round trip of a complete stream\<close>

lemma iter_lines_A_B_DONE:
  assumes a: \<open>loads (lit ''{"choices":[{"delta":{"content":"A"}}]}'') = Some (delta_json (lit ''A''))\<close>
    and b: \<open>loads (lit ''{"choices":[{"delta":{"content":"B"}}]}'') = Some (delta_json (lit ''B''))\<close>
  shows \<open>iter_lines loads
     [Text (lit ''data: {"choices":[{"delta":{"content":"A"}}]}''),
      Text (lit ''data: {"choices":[{"delta":{"content":"B"}}]}''),
      Text (lit ''data: [DONE]'')] end_error [] =
     ([lit ''A'', lit ''B''], lit ''AB'', None)\<close>
proof -
  have A: \<open>loads (strip (drop 6 (lit ''data: {"choices":[{"delta":{"content":"A"}}]}''))) =
      Some (delta_json (lit ''A''))\<close>
    using frame_A a by simp
  have B: \<open>loads (strip (drop 6 (lit ''data: {"choices":[{"delta":{"content":"B"}}]}''))) =
      Some (delta_json (lit ''B''))\<close>
    using frame_B b by simp
  have AB: "lit ''A'' @ lit ''B'' = lit ''AB''" by (simp add: lit_def)
  note fA = frame_A [THEN conjunct1] frame_A [THEN conjunct2, THEN conjunct1]
  note fB = frame_B [THEN conjunct1] frame_B [THEN conjunct2, THEN conjunct1]
  note fD = frame_DONE [THEN conjunct1] frame_DONE [THEN conjunct2, THEN conjunct1]
    frame_DONE [THEN conjunct2, THEN conjunct2]
  have nA: \<open>strip (drop 6 (lit ''data: {"choices":[{"delta":{"content":"A"}}]}'')) \<noteq> lit ''[DONE]''\<close>
    using frame_A by simp
  have nB: \<open>strip (drop 6 (lit ''data: {"choices":[{"delta":{"content":"B"}}]}'')) \<noteq> lit ''[DONE]''\<close>
    using frame_B by simp
  note stepA = iter_lines_delta [where loads = loads, OF fA nA A]
  note stepB = iter_lines_delta [where loads = loads, OF fB nB B]
  note stepD = iter_lines_done [OF fD]
  show ?thesis
    by (simp only: stepA stepB stepD prod.case append_Nil AB)
qed

lemma last_two_committed:
  "last_n 2 (history (save_memory uid u a s) uid) =
     [\<lparr>role = lit ''user'', content = u\<rparr>, \<lparr>role = lit ''assistant'', content = a\<rparr>]"
proof -
  have "last_n 2 (last_n 40 (xs @ [x, y])) = [x, y]" for xs :: "turn list" and x y
    by (simp add: last_n_def)
  then show ?thesis
    by (simp add: history_save_memory exchange_def MAX_MEMORY_MESSAGES_def)
qed

text \<open>
  C1. For every identity and every chat request that reaches the upstream, when the
  upstream answers with a status that \<open>raise_for_status()\<close> lets pass and delivers the
  frames with contents \<open>A\<close> and \<open>B\<close> and then \<open>[DONE]\<close>, the streaming response consists of exactly the fragments \<open>A\<close> and \<open>B\<close>, in this order, and
  afterwards the identity's history ends with a user turn holding the request text (the
  trimmed message, which is what the orchestrator forwards) followed by an assistant
  turn with content \<open>AB\<close>. \<open>json.loads\<close> is a parameter, taken to decode the two payloads
  to the objects they denote.
\<close>

theorem roundtrip_A_B_DONE:
  assumes \<open>env_loads e (lit ''{"choices":[{"delta":{"content":"A"}}]}'') = Some (delta_json (lit ''A''))\<close>
    and \<open>env_loads e (lit ''{"choices":[{"delta":{"content":"B"}}]}'') = Some (delta_json (lit ''B''))\<close>
    and \<open>posted (chat e r s) = [q]\<close>
    and \<open>env_post e q = Response code msg
           [Text (lit ''data: {"choices":[{"delta":{"content":"A"}}]}''),
            Text (lit ''data: {"choices":[{"delta":{"content":"B"}}]}''),
            Text (lit ''data: [DONE]'')] end_error\<close>
    and \<open>\<not> (400 \<le> code \<and> code < 600)\<close>
  shows \<open>returned (chat e r s) = StreamingResponse [lit ''A'', lit ''B''] \<and>
         last_n 2 (history (state_after (chat e r s)) (get_user_id e (req_uid r))) =
           [\<lparr>role = lit ''user'', content = strip (req_message r)\<rparr>,
            \<lparr>role = lit ''assistant'', content = lit ''AB''\<rparr>]\<close>
proof -
  let ?uid = "get_user_id e (req_uid r)" and ?msg = "strip (req_message r)"
  from chat_streamed [OF assms(3)] obtain s2 where
    c: "chat e r s =
       (let sr = stream_response e ?uid (build_messages ?uid ?msg s2)
                   (req_model r) (req_temperature r) (req_max_tokens r) s2
        in \<lparr>returned = StreamingResponse (returned sr), posted = posted sr,
            logged = logged sr, state_after = state_after sr\<rparr>)"
    and q: "q = upstream_request e (build_messages ?uid ?msg s2)
           (req_model r) (req_temperature r) (req_max_tokens r)"
    by blast
  have rs: "read_stream (env_loads e) (env_post e (upstream_request e (build_messages ?uid ?msg s2)
           (req_model r) (req_temperature r) (req_max_tokens r))) =
      ([lit ''A'', lit ''B''], lit ''AB'', None)"
    unfolding q [symmetric] assms(4) read_stream_def
    using iter_lines_A_B_DONE [OF assms(1) assms(2), of end_error] assms(5)
    by (simp add: raise_for_status_def)
  have ne: "build_messages ?uid ?msg s2 \<noteq> []"
    and l: "content (last (build_messages ?uid ?msg s2)) = ?msg"
    by (simp_all add: build_messages_def)
  note sr = stream_response_completed [OF rs ne, of ?uid s2, unfolded l]
  show ?thesis
    unfolding c Let_def sr by (simp add: last_two_committed)
qed

theorem roundtrip_A_B_DONE_witness:
  \<open>json_loads (lit ''{"choices":[{"delta":{"content":"A"}}]}'') = Some (delta_json (lit ''A'')) \<and>
   json_loads (lit ''{"choices":[{"delta":{"content":"B"}}]}'') = Some (delta_json (lit ''B'')) \<and>
   length (posted (chat
      (sample_env (Response 200 []
           [Text (lit ''data: {"choices":[{"delta":{"content":"A"}}]}''),
            Text (lit ''data: {"choices":[{"delta":{"content":"B"}}]}''),
            Text (lit ''data: [DONE]'')] None))
      (sample_chat (lit ''hi'')) init)) = 1 \<and>
   returned (chat
      (sample_env (Response 200 []
           [Text (lit ''data: {"choices":[{"delta":{"content":"A"}}]}''),
            Text (lit ''data: {"choices":[{"delta":{"content":"B"}}]}''),
            Text (lit ''data: [DONE]'')] None))
      (sample_chat (lit ''hi'')) init) = StreamingResponse [lit ''A'', lit ''B''] \<and>
   last_n 2 (history (state_after (chat
      (sample_env (Response 200 []
           [Text (lit ''data: {"choices":[{"delta":{"content":"A"}}]}''),
            Text (lit ''data: {"choices":[{"delta":{"content":"B"}}]}''),
            Text (lit ''data: [DONE]'')] None))
      (sample_chat (lit ''hi'')) init)) (lit ''u1'')) =
     [\<lparr>role = lit ''user'', content = lit ''hi''\<rparr>,
      \<lparr>role = lit ''assistant'', content = lit ''AB''\<rparr>]\<close>
proof -
  let ?up = \<open>Response 200 []
           [Text (lit ''data: {"choices":[{"delta":{"content":"A"}}]}''),
            Text (lit ''data: {"choices":[{"delta":{"content":"B"}}]}''),
            Text (lit ''data: [DONE]'')] None\<close>
  let ?e = "sample_env ?up" and ?r = "sample_chat (lit ''hi'')"
  let ?q = "upstream_request ?e
      [\<lparr>role = lit ''system'', content = BASE_SYSTEM_PROMPT\<rparr>,
       \<lparr>role = lit ''user'', content = lit ''hi''\<rparr>]
      (Some (lit ''fast'')) (Some (65 / 100)) (Some 1024)"
  from sample_chat_streams [of "lit ''hi''" ?up] strip_hi
  have h3: "posted (chat ?e ?r init) = [?q]"
    by (auto simp: Let_def posted_stream_response)
  have h1: \<open>env_loads ?e (lit ''{"choices":[{"delta":{"content":"A"}}]}'') = Some (delta_json (lit ''A''))\<close>
    and h2: \<open>env_loads ?e (lit ''{"choices":[{"delta":{"content":"B"}}]}'') = Some (delta_json (lit ''B''))\<close>
    by (simp_all only: env_loads_sample json_loads_A json_loads_B)
  have h4: "env_post ?e ?q = ?up" by (rule env_post_sample)
  have u: "get_user_id ?e (req_uid ?r) = lit ''u1''"
    by (simp add: get_user_id_def sample_chat_def lit_def)
  have m: "strip (req_message ?r) = lit ''hi''"
    using strip_hi by (simp add: sample_chat_def)
  have h5: "\<not> (400 \<le> (200::nat) \<and> (200::nat) < 600)" by simp
  note t = roundtrip_A_B_DONE [OF h1 h2 h3 h4 h5, unfolded u m]
  have n: "length (posted (chat ?e ?r init)) = 1" by (simp add: h3)
  from json_loads_A json_loads_B n t show ?thesis by blast
qed

end
